theory Spec2Isabelle
  imports Complex_Main "HOL-Library.Word" "HOL-Library.AList"
begin

section \<open>Python values used by both parsers\<close>

text \<open>
  Both modules are Python 3 sources (non-ASCII comments without a coding line, \<open>print\<close>
  as a function, \<open>chr\<close> applied to the result of indexing a \<open>bytes\<close> object).
  A \<open>bytes\<close> object is a list of 8-bit words; a \<open>str\<close> is a \<open>string\<close>.
  A \<open>bytes\<close> object never equals a \<open>str\<close>, so dictionary keys carry their type.
  Floats are idealised as exact reals.
\<close>

type_synonym byte = "8 word"
type_synonym bytes = "byte list"

datatype exn =
    StructError
  | KeyError string
  | IndexError
  | TypeError
  | ValueError
  | OverflowError
  | AttributeError string
  | HostError

datatype pykey = Str string | Bytes bytes

text \<open>\<open>xs[i:j]\<close> for non-negative \<open>i\<close>, \<open>j\<close>: clamped to the sequence, empty when \<open>j \<le> i\<close>.\<close>

definition slice :: "'a list \<Rightarrow> nat \<Rightarrow> nat \<Rightarrow> 'a list" where
  "slice xs i j = take (j - i) (drop i xs)"

text \<open>\<open>xs[i]\<close> for non-negative \<open>i\<close>: raises IndexError out of range.\<close>

definition py_index :: "'a list \<Rightarrow> nat \<Rightarrow> exn + 'a" where
  "py_index xs i = (if i < length xs then Inr (xs ! i) else Inl IndexError)"

text \<open>\<open>d.get(k, dflt)\<close> and \<open>d[k]\<close> on a dictionary kept as an association list.\<close>

definition dict_get :: "('k \<times> 'v) list \<Rightarrow> 'k \<Rightarrow> 'v \<Rightarrow> 'v" where
  "dict_get d k dflt = (case map_of d k of None \<Rightarrow> dflt | Some v \<Rightarrow> v)"

definition dict_item :: "(string \<times> 'v) list \<Rightarrow> string \<Rightarrow> exn + 'v" where
  "dict_item d k = (case map_of d k of None \<Rightarrow> Inl (KeyError k) | Some v \<Rightarrow> Inr v)"

text \<open>\<open>chr\<close> of an integer obtained by indexing \<open>bytes\<close> (0..255): a one-character \<open>str\<close>.\<close>

definition chr :: "byte \<Rightarrow> string" where
  "chr b = [char_of (unat b)]"

subsection \<open>struct.unpack, native layout on a little-endian host\<close>

definition le_nat :: "bytes \<Rightarrow> nat" where
  "le_nat bs = foldr (\<lambda>b acc. unat b + 256 * acc) bs 0"

definition unpack_uint :: "nat \<Rightarrow> bytes \<Rightarrow> exn + nat" where
  "unpack_uint n x = (if length x = n then Inr (le_nat x) else Inl StructError)"

abbreviation unpack_H :: "bytes \<Rightarrow> exn + nat" where "unpack_H \<equiv> unpack_uint 2"
abbreviation unpack_I :: "bytes \<Rightarrow> exn + nat" where "unpack_I \<equiv> unpack_uint 4"
abbreviation unpack_Q :: "bytes \<Rightarrow> exn + nat" where "unpack_Q \<equiv> unpack_uint 8"

definition unpack_BB :: "bytes \<Rightarrow> exn + (nat \<times> nat)" where
  "unpack_BB x = (case x of [a, b] \<Rightarrow> Inr (unat a, unat b) | _ \<Rightarrow> Inl StructError)"

definition unpack_HBBI :: "bytes \<Rightarrow> exn + (nat \<times> nat \<times> nat \<times> nat)" where
  "unpack_HBBI x =
     (if length x = 8
      then Inr (le_nat (take 2 x), unat (x ! 2), unat (x ! 3), le_nat (drop 4 x))
      else Inl StructError)"

subsection \<open>MsgBody.get_fields\<close>

fun get_fields_loop ::
  "'a list \<Rightarrow> (string \<times> nat) list \<Rightarrow> nat \<Rightarrow> (string \<times> 'a list) list \<Rightarrow> (string \<times> 'a list) list"
where
  "get_fields_loop d [] start fields = fields"
| "get_fields_loop d (arg # names) start fields =
     get_fields_loop d names (start + snd arg)
       (AList.update (fst arg) (slice d start (start + snd arg)) fields)"

definition get_fields :: "'a list \<Rightarrow> (string \<times> nat) list \<Rightarrow> (string \<times> 'a list) list" where
  "get_fields d names = get_fields_loop d names 0 []"

section \<open>The multicast parser (src/batsmc/parser.py)\<close>

subsection \<open>The Flags union\<close>

text \<open>
  Each member of \<open>FlagsBits\<close> is a bit-field of a \<open>c_uint8\<close>; assigning an integer keeps
  its low bits. Attributes assigned under a name that is not a member
  (\<open>statistic_type\<close>, \<open>pitch_price_determination\<close>, \<open>auction_type\<close>) become plain instance
  attributes, kept in \<open>attrs\<close>.
\<close>

record Flags =
  market_mechanism :: "3 word"
  trading_mode :: "4 word"
  transaction_category :: "3 word"
  modification_indicator :: "3 word"
  offbook_automated_indicator :: "3 word"
  trade_timing_indicator :: "3 word"
  benchmark_indicator :: "3 word"
  crossing_trade :: "3 word"
  ex_cum_dividend :: "3 word"
  negotiated_trade :: "3 word"
  publication_indicator :: "3 word"
  trading_status :: "3 word"
  statistics_type :: "3 word"
  login_status :: "3 word"
  gap_status :: "3 word"
  attrs :: "(string \<times> nat) list"

definition Flags_init :: Flags where
  "Flags_init = \<lparr> market_mechanism = 0, trading_mode = 0, transaction_category = 0,
     modification_indicator = 0, offbook_automated_indicator = 0, trade_timing_indicator = 0,
     benchmark_indicator = 0, crossing_trade = 0, ex_cum_dividend = 0, negotiated_trade = 0,
     publication_indicator = 0, trading_status = 0, statistics_type = 0, login_status = 0,
     gap_status = 0, attrs = [] \<rparr>"

subsection \<open>Session state, collaborators and output\<close>

datatype datetime = Now | At real

datatype qval = VInt nat | VFloat real | VNone | VFlags "Flags option"

type_synonym quote = "nat \<times> datetime option \<times> (string \<times> qval) list \<times> string"

datatype event =
    FlagError string exn
  | MsgError string string exn
  | WriteQuote quote
  | WriteQuoteDirect
  | CloseQuotes

text \<open>
  \<open>write_quote\<close> and \<open>close_quotes\<close> are supplied by the host of the parser, and the clock,
  the range of \<open>datetime.fromtimestamp\<close> and the calendar behind
  \<open>mktime(strptime(d, "%Y%m%d").timetuple())\<close> by the platform: they are parameters. The
  direct parser always calls \<open>write_quote("", 0, "", "")\<close>, so its host's \<open>write_quote\<close>
  is a single outcome.

  \<open>mktime_today\<close> is the value of \<open>mktime(datetime.today().timetuple())\<close> when \<open>parse\<close> is
  called. \<open>datetime.today()\<close> is the current local date and time, so this is the time of
  the call in whole seconds, not the start of the day; \<open>parse\<close> stores it in the attribute
  it names \<open>midnight\<close>.
\<close>

record env =
  write_quote :: "quote \<Rightarrow> exn option"
  bats_write_quote :: "exn option"
  close_quotes :: "exn option"
  mktime_today :: real
  fromtimestamp_raises :: "real \<Rightarrow> exn option"
  strptime_mktime :: "string \<Rightarrow> exn + real"

record session =
  midnight :: real
  out :: "event list"

record mc_session = session +
  pitch_time :: "bytes option"
  contract :: "nat option"
  flags :: "Flags option"

definition date_format :: "env \<Rightarrow> real \<Rightarrow> exn + datetime option" where
  "date_format e stamp =
     (case fromtimestamp_raises e stamp of
        None \<Rightarrow> Inr (Some (At stamp))
      | Some ex \<Rightarrow> if ex = IndexError \<or> ex = ValueError then Inr None else Inl ex)"

definition hex_digit :: "nat \<Rightarrow> char" where
  "hex_digit n = ''0123456789abcdef'' ! n"

fun join :: "string \<Rightarrow> string list \<Rightarrow> string" where
  "join sep [] = []"
| "join sep [x] = x"
| "join sep (x # y # ys) = x @ sep @ join sep (y # ys)"

definition to_bstr :: "bytes \<Rightarrow> string" where
  "to_bstr data = join '' '' (map (\<lambda>b. [hex_digit (unat b div 16), hex_digit (unat b mod 16)]) data)"


subsection \<open>Flag decoders\<close>

type_synonym 'a result = "(exn \<times> mc_session) + ('a \<times> mc_session)"

text \<open>\<open>self.flags.<member> = ...\<close>: the attribute \<open>flags\<close> must exist.\<close>

definition with_flags :: "(Flags \<Rightarrow> Flags) \<Rightarrow> mc_session \<Rightarrow> exn + mc_session" where
  "with_flags upd s =
     (case flags s of
        None \<Rightarrow> Inl (AttributeError ''flags'')
      | Some fl \<Rightarrow> Inr (s\<lparr>flags := Some (upd fl)\<rparr>))"

text \<open>The decorator \<open>flag\<close>: convert the byte with \<open>chr\<close>, print and swallow any exception.\<close>

definition mc_flag ::
  "string \<Rightarrow> (string \<Rightarrow> mc_session \<Rightarrow> exn + mc_session) \<Rightarrow> byte \<Rightarrow> mc_session \<Rightarrow> mc_session"
where
  "mc_flag name func b s =
     (case func (chr b) s of
        Inr s' \<Rightarrow> s'
      | Inl ex \<Rightarrow> s\<lparr>out := out s @ [FlagError name ex]\<rparr>)"

definition mc_market_mechanism_table :: "(pykey \<times> nat) list" where
  "mc_market_mechanism_table = [(Str ''1'', 1), (Str ''2'', 2), (Str ''3'', 3), (Str ''4'', 4)]"

definition mc_market_mechanism_func :: "string \<Rightarrow> mc_session \<Rightarrow> exn + mc_session" where
  "mc_market_mechanism_func key =
     with_flags (\<lambda>fl. fl\<lparr>market_mechanism := of_nat (dict_get mc_market_mechanism_table (Str key) 0)\<rparr>)"

definition mc_market_mechanism :: "byte \<Rightarrow> mc_session \<Rightarrow> mc_session" where
  "mc_market_mechanism = mc_flag ''market_mechanism'' mc_market_mechanism_func"

definition mc_trading_mode_table :: "(pykey \<times> nat) list" where
  "mc_trading_mode_table = [(Str ''1'', 1), (Str ''2'', 2), (Str ''3'', 3), (Str ''4'', 4), (Str ''5'', 5), (Str ''6'', 6), (Str ''7'', 7), (Str ''O'', 8), (Str ''K'', 9), (Str ''I'', 10), (Str ''U'', 11)]"

definition mc_trading_mode_func :: "string \<Rightarrow> mc_session \<Rightarrow> exn + mc_session" where
  "mc_trading_mode_func key =
     with_flags (\<lambda>fl. fl\<lparr>trading_mode := of_nat (dict_get mc_trading_mode_table (Str key) 0)\<rparr>)"

definition mc_trading_mode :: "byte \<Rightarrow> mc_session \<Rightarrow> mc_session" where
  "mc_trading_mode = mc_flag ''trading_mode'' mc_trading_mode_func"

definition mc_transaction_category_table :: "(pykey \<times> nat) list" where
  "mc_transaction_category_table = [(Str ''P'', 1), (Str ''D'', 2), (Str ''T'', 3), (Str ''G'', 4), (Str ''F'', 5)]"

definition mc_transaction_category_func :: "string \<Rightarrow> mc_session \<Rightarrow> exn + mc_session" where
  "mc_transaction_category_func key =
     with_flags (\<lambda>fl. fl\<lparr>transaction_category := of_nat (dict_get mc_transaction_category_table (Str key) 0)\<rparr>)"

definition mc_transaction_category :: "byte \<Rightarrow> mc_session \<Rightarrow> mc_session" where
  "mc_transaction_category = mc_flag ''transaction_category'' mc_transaction_category_func"

definition mc_negotiated_trade_table :: "(pykey \<times> nat) list" where
  "mc_negotiated_trade_table = [(Str ''N'', 1)]"

definition mc_negotiated_trade_func :: "string \<Rightarrow> mc_session \<Rightarrow> exn + mc_session" where
  "mc_negotiated_trade_func key =
     with_flags (\<lambda>fl. fl\<lparr>negotiated_trade := of_nat (dict_get mc_negotiated_trade_table (Str key) 0)\<rparr>)"

definition mc_negotiated_trade :: "byte \<Rightarrow> mc_session \<Rightarrow> mc_session" where
  "mc_negotiated_trade = mc_flag ''negotiated_trade'' mc_negotiated_trade_func"

definition mc_crossing_trade_table :: "(pykey \<times> nat) list" where
  "mc_crossing_trade_table = [(Str ''X'', 1)]"

definition mc_crossing_trade_func :: "string \<Rightarrow> mc_session \<Rightarrow> exn + mc_session" where
  "mc_crossing_trade_func key =
     with_flags (\<lambda>fl. fl\<lparr>crossing_trade := of_nat (dict_get mc_crossing_trade_table (Str key) 0)\<rparr>)"

definition mc_crossing_trade :: "byte \<Rightarrow> mc_session \<Rightarrow> mc_session" where
  "mc_crossing_trade = mc_flag ''crossing_trade'' mc_crossing_trade_func"

definition mc_modification_indicator_table :: "(pykey \<times> nat) list" where
  "mc_modification_indicator_table = [(Str ''A'', 1), (Str ''C'', 2)]"

definition mc_modification_indicator_func :: "string \<Rightarrow> mc_session \<Rightarrow> exn + mc_session" where
  "mc_modification_indicator_func key =
     with_flags (\<lambda>fl. fl\<lparr>modification_indicator := of_nat (dict_get mc_modification_indicator_table (Str key) 0)\<rparr>)"

definition mc_modification_indicator :: "byte \<Rightarrow> mc_session \<Rightarrow> mc_session" where
  "mc_modification_indicator = mc_flag ''modification_indicator'' mc_modification_indicator_func"

definition mc_benchmark_indicator_table :: "(pykey \<times> nat) list" where
  "mc_benchmark_indicator_table = [(Str ''B'', 1)]"

definition mc_benchmark_indicator_func :: "string \<Rightarrow> mc_session \<Rightarrow> exn + mc_session" where
  "mc_benchmark_indicator_func key =
     with_flags (\<lambda>fl. fl\<lparr>benchmark_indicator := of_nat (dict_get mc_benchmark_indicator_table (Str key) 0)\<rparr>)"

definition mc_benchmark_indicator :: "byte \<Rightarrow> mc_session \<Rightarrow> mc_session" where
  "mc_benchmark_indicator = mc_flag ''benchmark_indicator'' mc_benchmark_indicator_func"

definition mc_ex_cum_dividend_table :: "(pykey \<times> nat) list" where
  "mc_ex_cum_dividend_table = [(Str ''E'', 1)]"

definition mc_ex_cum_dividend_func :: "string \<Rightarrow> mc_session \<Rightarrow> exn + mc_session" where
  "mc_ex_cum_dividend_func key =
     with_flags (\<lambda>fl. fl\<lparr>ex_cum_dividend := of_nat (dict_get mc_ex_cum_dividend_table (Str key) 0)\<rparr>)"

definition mc_ex_cum_dividend :: "byte \<Rightarrow> mc_session \<Rightarrow> mc_session" where
  "mc_ex_cum_dividend = mc_flag ''ex_cum_dividend'' mc_ex_cum_dividend_func"

definition mc_offbook_automated_indicator_table :: "(pykey \<times> nat) list" where
  "mc_offbook_automated_indicator_table = [(Str ''Q'', 1), (Str ''M'', 2)]"

definition mc_offbook_automated_indicator_func :: "string \<Rightarrow> mc_session \<Rightarrow> exn + mc_session" where
  "mc_offbook_automated_indicator_func key =
     with_flags (\<lambda>fl. fl\<lparr>offbook_automated_indicator := of_nat (dict_get mc_offbook_automated_indicator_table (Str key) 0)\<rparr>)"

definition mc_offbook_automated_indicator :: "byte \<Rightarrow> mc_session \<Rightarrow> mc_session" where
  "mc_offbook_automated_indicator = mc_flag ''offbook_automated_indicator'' mc_offbook_automated_indicator_func"

definition mc_publication_indicator_table :: "(pykey \<times> nat) list" where
  "mc_publication_indicator_table = [(Str ''1'', 1)]"

definition mc_publication_indicator_func :: "string \<Rightarrow> mc_session \<Rightarrow> exn + mc_session" where
  "mc_publication_indicator_func key =
     with_flags (\<lambda>fl. fl\<lparr>publication_indicator := of_nat (dict_get mc_publication_indicator_table (Str key) 0)\<rparr>)"

definition mc_publication_indicator :: "byte \<Rightarrow> mc_session \<Rightarrow> mc_session" where
  "mc_publication_indicator = mc_flag ''publication_indicator'' mc_publication_indicator_func"

definition mc_trade_timing_indicator_table :: "(pykey \<times> nat) list" where
  "mc_trade_timing_indicator_table = [(Str ''1'', 1), (Str ''2'', 2)]"

definition mc_trade_timing_indicator_func :: "string \<Rightarrow> mc_session \<Rightarrow> exn + mc_session" where
  "mc_trade_timing_indicator_func key =
     with_flags (\<lambda>fl. fl\<lparr>trade_timing_indicator := of_nat (dict_get mc_trade_timing_indicator_table (Str key) 0)\<rparr>)"

definition mc_trade_timing_indicator :: "byte \<Rightarrow> mc_session \<Rightarrow> mc_session" where
  "mc_trade_timing_indicator = mc_flag ''trade_timing_indicator'' mc_trade_timing_indicator_func"

text \<open>\<open>self.f(data[i])\<close>: the index is evaluated first and may raise IndexError.\<close>

definition flag_at ::
  "(byte \<Rightarrow> mc_session \<Rightarrow> mc_session) \<Rightarrow> bytes \<Rightarrow> nat \<Rightarrow> mc_session \<Rightarrow> (exn \<times> mc_session) + mc_session"
where
  "flag_at f data i s = (case py_index data i of Inl ex \<Rightarrow> Inl (ex, s) | Inr b \<Rightarrow> Inr (f b s))"

fun run_all ::
  "(mc_session \<Rightarrow> (exn \<times> mc_session) + mc_session) list \<Rightarrow> mc_session \<Rightarrow> (exn \<times> mc_session) + mc_session"
where
  "run_all [] s = Inr s"
| "run_all (stmt # stmts) s = (case stmt s of Inl err \<Rightarrow> Inl err | Inr s' \<Rightarrow> run_all stmts s')"

definition mc_parse_order_execution_flag :: "bytes \<Rightarrow> mc_session \<Rightarrow> (exn \<times> mc_session) + mc_session" where
  "mc_parse_order_execution_flag data =
     run_all [flag_at mc_market_mechanism data 0,
              flag_at mc_trading_mode data 1,
              flag_at mc_ex_cum_dividend data 2]"

definition mc_parse_trade_flags :: "bytes \<Rightarrow> mc_session \<Rightarrow> (exn \<times> mc_session) + mc_session" where
  "mc_parse_trade_flags data =
     run_all [flag_at mc_market_mechanism data 0,
              flag_at mc_trading_mode data 1,
              flag_at mc_transaction_category data 2,
              flag_at mc_ex_cum_dividend data 3]"

definition mc_parse_trade_report_flags :: "bytes \<Rightarrow> mc_session \<Rightarrow> (exn \<times> mc_session) + mc_session" where
  "mc_parse_trade_report_flags data =
     run_all [flag_at mc_trade_timing_indicator data 0,
              flag_at mc_market_mechanism data 1,
              flag_at mc_trading_mode data 2,
              flag_at mc_transaction_category data 3,
              flag_at mc_negotiated_trade data 4,
              flag_at mc_crossing_trade data 5,
              flag_at mc_modification_indicator data 6,
              flag_at mc_benchmark_indicator data 7,
              flag_at mc_ex_cum_dividend data 8,
              flag_at mc_publication_indicator data 9,
              flag_at mc_offbook_automated_indicator data 10]"

subsection \<open>Tables looked up inside the handlers\<close>

text \<open>
  These dictionaries have \<open>str\<close> keys; the handlers look up a field, which is a slice of the
  \<open>bytes\<close> body. The \<open>store\<close> functions are the assignments
  \<open>self.flags.<name> = {...}.get(key, 0)\<close> for a given key.
\<close>

definition mc_login_status_table :: "(pykey \<times> nat) list" where
  "mc_login_status_table = [(Str ''A'', 1), (Str ''N'', 2), (Str ''B'', 3), (Str ''S'', 4)]"

definition mc_gap_status_table :: "(pykey \<times> nat) list" where
  "mc_gap_status_table =
     [(Str ''A'', 1), (Str ''O'', 2), (Str ''D'', 3), (Str ''M'', 4), (Str ''S'', 5),
      (Str ''C'', 6), (Str ''I'', 7)]"

definition mc_trading_status_table :: "(pykey \<times> nat) list" where
  "mc_trading_status_table =
     [(Str ''T'', 1), (Str ''R'', 2), (Str ''C'', 3), (Str ''S'', 4), (Str ''N'', 5),
      (Str ''V'', 6), (Str ''O'', 7), (Str ''E'', 8), (Str ''H'', 9), (Str ''M'', 10),
      (Str ''P'', 11)]"

definition mc_statistic_type_table :: "(pykey \<times> nat) list" where
  "mc_statistic_type_table =
     [(Str ''C'', 1), (Str ''H'', 2), (Str ''L'', 3), (Str ''O'', 4), (Str ''P'', 5)]"

definition mc_price_determination_table :: "(pykey \<times> nat) list" where
  "mc_price_determination_table = [(Str ''0'', 1), (Str ''1'', 2)]"

definition mc_auction_type_table :: "(pykey \<times> nat) list" where
  "mc_auction_type_table = [(Str ''O'', 1), (Str ''C'', 2), (Str ''H'', 3), (Str ''V'', 4)]"

definition mc_login_status_store :: "pykey \<Rightarrow> Flags \<Rightarrow> Flags" where
  "mc_login_status_store key fl = fl\<lparr>login_status := of_nat (dict_get mc_login_status_table key 0)\<rparr>"

definition mc_gap_status_store :: "pykey \<Rightarrow> Flags \<Rightarrow> Flags" where
  "mc_gap_status_store key fl = fl\<lparr>gap_status := of_nat (dict_get mc_gap_status_table key 0)\<rparr>"

definition mc_trading_status_store :: "pykey \<Rightarrow> Flags \<Rightarrow> Flags" where
  "mc_trading_status_store key fl =
     fl\<lparr>trading_status := of_nat (dict_get mc_trading_status_table key 0)\<rparr>"

definition mc_statistic_type_store :: "pykey \<Rightarrow> Flags \<Rightarrow> Flags" where
  "mc_statistic_type_store key fl =
     fl\<lparr>attrs := AList.update ''statistic_type'' (dict_get mc_statistic_type_table key 0) (attrs fl)\<rparr>"

definition mc_price_determination_store :: "pykey \<Rightarrow> Flags \<Rightarrow> Flags" where
  "mc_price_determination_store key fl =
     fl\<lparr>attrs := AList.update ''pitch_price_determination''
                    (dict_get mc_price_determination_table key 0) (attrs fl)\<rparr>"

definition mc_auction_type_store :: "pykey \<Rightarrow> Flags \<Rightarrow> Flags" where
  "mc_auction_type_store key fl =
     fl\<lparr>attrs := AList.update ''auction_type'' (dict_get mc_auction_type_table key 0) (attrs fl)\<rparr>"

text \<open>
  \<open>self.flags.<name> = {...}.get(fields[k], 0)\<close>: the subscript \<open>fields[k]\<close> is evaluated
  first and raises KeyError when the layout has no field \<open>k\<close>.
\<close>

definition store_field ::
  "(pykey \<Rightarrow> Flags \<Rightarrow> Flags) \<Rightarrow> (string \<times> bytes) list \<Rightarrow> string \<Rightarrow> mc_session \<Rightarrow> (exn \<times> mc_session) + mc_session"
where
  "store_field store flds k s =
     (case dict_item flds k of
        Inl ex \<Rightarrow> Inl (ex, s)
      | Inr x \<Rightarrow> (case with_flags (store (Bytes x)) s of
                   Inl ex \<Rightarrow> Inl (ex, s)
                 | Inr s' \<Rightarrow> Inr s'))"

definition parse_field ::
  "(bytes \<Rightarrow> mc_session \<Rightarrow> (exn \<times> mc_session) + mc_session) \<Rightarrow> (string \<times> bytes) list \<Rightarrow> string \<Rightarrow> mc_session \<Rightarrow> (exn \<times> mc_session) + mc_session"
where
  "parse_field p flds k s =
     (case dict_item flds k of Inl ex \<Rightarrow> Inl (ex, s) | Inr x \<Rightarrow> p x s)"


subsection \<open>Message handlers\<close>

text \<open>
  A handler is the function under the decorator: it receives the body cut to the declared
  length and returns the fields, or raises. The session travels with the exception, since
  assignments made before the raise persist.
\<close>

type_synonym fields = "(string \<times> bytes) list"
type_synonym handler = "bytes \<Rightarrow> mc_session \<Rightarrow> fields result"

definition returning :: "fields \<Rightarrow> (exn \<times> mc_session) + mc_session \<Rightarrow> fields result" where
  "returning flds r = (case r of Inl err \<Rightarrow> Inl err | Inr s \<Rightarrow> Inr (flds, s))"

definition mc_msg_login_names :: "(string \<times> nat) list" where
  "mc_msg_login_names =
     [(''login_session_sub_id'', 4), (''login_username'', 4), (''login_filler'', 2),
      (''login_password'', 10)]"

definition mc_msg_login :: handler where
  "mc_msg_login data s = Inr (get_fields data mc_msg_login_names, s)"

definition mc_msg_login_response_names :: "(string \<times> nat) list" where
  "mc_msg_login_response_names =
     [(''flags'', 1)]"

definition mc_msg_login_response :: handler where
  "mc_msg_login_response data s =
     (let flds = get_fields data mc_msg_login_response_names
      in returning [] (store_field mc_login_status_store flds ''flags'' s))"

definition mc_msg_gap_request_names :: "(string \<times> nat) list" where
  "mc_msg_gap_request_names =
     [(''gap_unit'', 1), (''gap_sequense'', 4), (''gap_count'', 2)]"

definition mc_msg_gap_request :: handler where
  "mc_msg_gap_request data s = Inr (get_fields data mc_msg_gap_request_names, s)"

definition mc_msg_gap_response_names :: "(string \<times> nat) list" where
  "mc_msg_gap_response_names =
     [(''gap_unit'', 1), (''gap_sequence'', 4), (''gap_count'', 2), (''flags'', 1)]"

definition mc_msg_gap_response :: handler where
  "mc_msg_gap_response data s =
     (let flds = get_fields data mc_msg_gap_response_names
      in returning flds (store_field mc_gap_status_store flds ''flags'' s))"

definition mc_msg_time_names :: "(string \<times> nat) list" where
  "mc_msg_time_names =
     [(''pitch_time'', 4)]"

definition mc_msg_time :: handler where
  "mc_msg_time data s =
     (let flds = get_fields data mc_msg_time_names
      in case dict_item flds ''pitch_time'' of
           Inl ex \<Rightarrow> Inl (ex, s)
         | Inr x \<Rightarrow> Inr (flds, s\<lparr>pitch_time := Some x\<rparr>))"

definition mc_msg_clear_names :: "(string \<times> nat) list" where
  "mc_msg_clear_names =
     [(''pitch_time_offset'', 4)]"

definition mc_msg_clear :: handler where
  "mc_msg_clear data s = Inr (get_fields data mc_msg_clear_names, s)"

definition mc_msg_add_order_names :: "(string \<times> nat) list" where
  "mc_msg_add_order_names =
     [(''pitch_time_offset'', 4), (''pitch_order'', 8), (''pitch_side'', 1),
      (''pitch_shares_s'', 2), (''pitch_symbol'', 6), (''pitch_price_s'', 2)]"

definition mc_msg_add_order :: handler where
  "mc_msg_add_order data s = Inr (get_fields data mc_msg_add_order_names, s)"

definition mc_msg_add_order_long_names :: "(string \<times> nat) list" where
  "mc_msg_add_order_long_names =
     [(''pitch_time_offset'', 4), (''pitch_order'', 8), (''pitch_side'', 1),
      (''pitch_shares_l'', 4), (''pitch_symbol'', 8), (''pitch_price_l'', 8)]"

definition mc_msg_add_order_long :: handler where
  "mc_msg_add_order_long data s = Inr (get_fields data mc_msg_add_order_long_names, s)"

definition mc_msg_add_order_exp_names :: "(string \<times> nat) list" where
  "mc_msg_add_order_exp_names =
     [(''pitch_time_offset'', 4), (''pitch_order'', 8), (''pitch_side'', 1),
      (''pitch_share_ls'', 4), (''pitch_symbol'', 8), (''pitch_price_l'', 8),
      (''pitch_add_order_flags'', 1), (''pitch_participant'', 4)]"

definition mc_msg_add_order_exp :: handler where
  "mc_msg_add_order_exp data s = Inr (get_fields data mc_msg_add_order_exp_names, s)"

definition mc_msg_order_executed_names :: "(string \<times> nat) list" where
  "mc_msg_order_executed_names =
     [(''pitch_time_offset'', 4), (''pitch_order'', 8), (''pitch_shares_l'', 4),
      (''pitch_execution_id'', 8), (''flags'', 3)]"

definition mc_msg_order_executed :: handler where
  "mc_msg_order_executed data s =
     (let flds = get_fields data mc_msg_order_executed_names
      in returning flds (parse_field mc_parse_order_execution_flag flds ''flags'' s))"

definition mc_msg_order_executed_price_names :: "(string \<times> nat) list" where
  "mc_msg_order_executed_price_names =
     [(''pitch_time_offset'', 4), (''pitch_order'', 8), (''pitch_e_shares_l'', 4),
      (''pitch_r_shares_l'', 4), (''pitch_execution_id'', 8), (''pitch_price_l'', 8),
      (''flags'', 3)]"

definition mc_msg_order_executed_price :: handler where
  "mc_msg_order_executed_price data s =
     (let flds = get_fields data mc_msg_order_executed_price_names
      in returning flds (parse_field mc_parse_order_execution_flag flds ''flags'' s))"

definition mc_msg_reduce_size_short_names :: "(string \<times> nat) list" where
  "mc_msg_reduce_size_short_names =
     [(''pitch_time_offset'', 4), (''pitch_order'', 8), (''pitch_shares_s'', 2)]"

definition mc_msg_reduce_size_short :: handler where
  "mc_msg_reduce_size_short data s = Inr (get_fields data mc_msg_reduce_size_short_names, s)"

definition mc_msg_reduce_size_long_names :: "(string \<times> nat) list" where
  "mc_msg_reduce_size_long_names =
     [(''pitch_time_offset'', 4), (''pitch_order'', 8), (''pitch_shares_l'', 4)]"

definition mc_msg_reduce_size_long :: handler where
  "mc_msg_reduce_size_long data s = Inr (get_fields data mc_msg_reduce_size_long_names, s)"

definition mc_msg_modify_order_short_names :: "(string \<times> nat) list" where
  "mc_msg_modify_order_short_names =
     [(''pitch_time_offset'', 4), (''pitch_order'', 8), (''pitch_shares_s'', 2),
      (''pitch_price_s'', 2)]"

definition mc_msg_modify_order_short :: handler where
  "mc_msg_modify_order_short data s = Inr (get_fields data mc_msg_modify_order_short_names, s)"

definition mc_msg_modify_order_long_names :: "(string \<times> nat) list" where
  "mc_msg_modify_order_long_names =
     [(''pitch_time_offset'', 4), (''pitch_order'', 8), (''pitch_shares_l'', 4),
      (''pitch_price_l'', 8)]"

definition mc_msg_modify_order_long :: handler where
  "mc_msg_modify_order_long data s = Inr (get_fields data mc_msg_modify_order_long_names, s)"

definition mc_msg_delete_order_names :: "(string \<times> nat) list" where
  "mc_msg_delete_order_names =
     [(''pitch_time_offset'', 4), (''pitch_order'', 8)]"

definition mc_msg_delete_order :: handler where
  "mc_msg_delete_order data s = Inr (get_fields data mc_msg_delete_order_names, s)"

definition mc_msg_trade_short_names :: "(string \<times> nat) list" where
  "mc_msg_trade_short_names =
     [(''pitch_time_offset'', 4), (''pitch_order'', 8), (''pitch_side'', 1),
      (''pitch_shares_s'', 2), (''pitch_symbol'', 6), (''pitch_price_s'', 2),
      (''pitch_execution_id'', 8), (''flags'', 4)]"

definition mc_msg_trade_short :: handler where
  "mc_msg_trade_short data s =
     (let flds = get_fields data mc_msg_trade_short_names
      in returning flds (parse_field mc_parse_trade_flags flds ''flags'' s))"

definition mc_msg_trade_long_names :: "(string \<times> nat) list" where
  "mc_msg_trade_long_names =
     [(''pitch_time_offset'', 4), (''pitch_order'', 8), (''pitch_side'', 1),
      (''pitch_shares_l'', 4), (''pitch_symbol'', 8), (''pitch_price_l'', 8),
      (''pitch_execution_id'', 8), (''flags'', 4)]"

definition mc_msg_trade_long :: handler where
  "mc_msg_trade_long data s =
     (let flds = get_fields data mc_msg_trade_long_names
      in returning flds (parse_field mc_parse_trade_flags flds ''flags'' s))"

definition mc_msg_trade_break_names :: "(string \<times> nat) list" where
  "mc_msg_trade_break_names =
     [(''pitch_time_offset'', 4), (''pitch_execution_id'', 8)]"

definition mc_msg_trade_break :: handler where
  "mc_msg_trade_break data s = Inr (get_fields data mc_msg_trade_break_names, s)"

definition mc_msg_trade_report_names :: "(string \<times> nat) list" where
  "mc_msg_trade_report_names =
     [(''pitch_time_offset'', 4), (''pitch_shares_ll'', 8), (''pitch_symbol'', 8),
      (''pitch_price_l'', 8), (''pitch_trade'', 8), (''pitch_trade_timestamp'', 8),
      (''pitch_exec_venue'', 4), (''pitch_currency'', 3), (''flags'', 11)]"

definition mc_msg_trade_report :: handler where
  "mc_msg_trade_report data s =
     (let flds = get_fields data mc_msg_trade_report_names
      in returning flds (parse_field mc_parse_trade_report_flags flds ''flags'' s))"

definition mc_msg_end_session_names :: "(string \<times> nat) list" where
  "mc_msg_end_session_names =
     [(''pitch_time_offset'', 4)]"

definition mc_msg_end_session :: handler where
  "mc_msg_end_session data s = Inr (get_fields data mc_msg_end_session_names, s)"

definition mc_msg_trading_status_names :: "(string \<times> nat) list" where
  "mc_msg_trading_status_names =
     [(''pitch_time_offset'', 4), (''pitch_symbol'', 8), (''flags'', 1),
      (''pitch_reserved'', 3)]"

definition mc_msg_trading_status :: handler where
  "mc_msg_trading_status data s =
     (let flds = get_fields data mc_msg_trading_status_names
      in returning flds (store_field mc_trading_status_store flds ''flags'' s))"

definition mc_msg_statistics_names :: "(string \<times> nat) list" where
  "mc_msg_statistics_names =
     [(''pitch_time_offset'', 4), (''pitch_symbol'', 8), (''pitch_price_l'', 8),
      (''flags'', 1), (''price_determination'', 1)]"

definition mc_msg_statistics :: handler where
  "mc_msg_statistics data s =
     (let flds = get_fields data mc_msg_statistics_names
      in returning flds
           (run_all [store_field mc_statistic_type_store flds ''flags'',
                     store_field mc_price_determination_store flds ''price_determination''] s))"

definition mc_msg_auction_update_names :: "(string \<times> nat) list" where
  "mc_msg_auction_update_names =
     [(''pitch_time_offset'', 4), (''pitch_symbol'', 8), (''auction_type'', 1),
      (''pitch_reference_price_l'', 8), (''pitch_buy_shares_l'', 4),
      (''pitch_sell_shares_l'', 4), (''pitch_indicative_price_l'', 8), (''pitch_reserved'', 8)]"

definition mc_msg_auction_update :: handler where
  "mc_msg_auction_update data s =
     (let flds = get_fields data mc_msg_auction_update_names
      in returning flds (store_field mc_auction_type_store flds ''flags'' s))"

definition mc_msg_auction_summary_names :: "(string \<times> nat) list" where
  "mc_msg_auction_summary_names =
     [(''pitch_time_offset'', 4), (''pitch_symbol'', 8), (''auction_type'', 1),
      (''pitch_price_l'', 8), (''pitch_shares_l'', 4)]"

definition mc_msg_auction_summary :: handler where
  "mc_msg_auction_summary data s =
     (let flds = get_fields data mc_msg_auction_summary_names
      in returning flds (store_field mc_auction_type_store flds ''flags'' s))"

subsection \<open>The catalog \<open>self.types\<close>\<close>

text \<open>
  An entry holds the length given to \<open>process_msg_header\<close>, the name of the decorated
  function, its field layout and the function itself.
\<close>

datatype mc_entry =
  Entry (entry_len: nat) (entry_name: string) (entry_names: "(string \<times> nat) list")
        (entry_func: handler)

definition mc_types :: "(nat \<times> mc_entry) list" where
  "mc_types =
     [(0x01, Entry 20 ''msg_login'' mc_msg_login_names mc_msg_login),
      (0x02, Entry 1 ''msg_login_response'' mc_msg_login_response_names mc_msg_login_response),
      (0x03, Entry 7 ''msg_gap_request'' mc_msg_gap_request_names mc_msg_gap_request),
      (0x04, Entry 8 ''msg_gap_response'' mc_msg_gap_response_names mc_msg_gap_response),
      (0x20, Entry 4 ''msg_time'' mc_msg_time_names mc_msg_time),
      (0x97, Entry 4 ''msg_clear'' mc_msg_clear_names mc_msg_clear),
      (0x22, Entry 23 ''msg_add_order'' mc_msg_add_order_names mc_msg_add_order),
      (0x40, Entry 33 ''msg_add_order_long'' mc_msg_add_order_long_names mc_msg_add_order_long),
      (0x2f, Entry 38 ''msg_add_order_exp'' mc_msg_add_order_exp_names mc_msg_add_order_exp),
      (0x23, Entry 27 ''msg_order_executed'' mc_msg_order_executed_names mc_msg_order_executed),
      (0x24, Entry 39 ''msg_order_executed_price'' mc_msg_order_executed_price_names mc_msg_order_executed_price),
      (0x25, Entry 16 ''msg_reduce_size_long'' mc_msg_reduce_size_long_names mc_msg_reduce_size_long),
      (0x26, Entry 14 ''msg_reduce_size_short'' mc_msg_reduce_size_short_names mc_msg_reduce_size_short),
      (0x27, Entry 24 ''msg_modify_order_long'' mc_msg_modify_order_long_names mc_msg_modify_order_long),
      (0x28, Entry 16 ''msg_modify_order_short'' mc_msg_modify_order_short_names mc_msg_modify_order_short),
      (0x29, Entry 12 ''msg_delete_order'' mc_msg_delete_order_names mc_msg_delete_order),
      (0x2b, Entry 35 ''msg_trade_short'' mc_msg_trade_short_names mc_msg_trade_short),
      (0x41, Entry 45 ''msg_trade_long'' mc_msg_trade_long_names mc_msg_trade_long),
      (0x2c, Entry 12 ''msg_trade_break'' mc_msg_trade_break_names mc_msg_trade_break),
      (0x32, Entry 62 ''msg_trade_report'' mc_msg_trade_report_names mc_msg_trade_report),
      (0x2d, Entry 4 ''msg_end_session'' mc_msg_end_session_names mc_msg_end_session),
      (0x31, Entry 21 ''msg_trading_status'' mc_msg_trading_status_names mc_msg_trading_status),
      (0x34, Entry 22 ''msg_statistics'' mc_msg_statistics_names mc_msg_statistics),
      (0x95, Entry 45 ''msg_auction_update'' mc_msg_auction_update_names mc_msg_auction_update),
      (0x96, Entry 47 ''msg_auction_summary'' mc_msg_auction_summary_names mc_msg_auction_summary)]"


subsection \<open>map_quote\<close>

type_synonym entry = "(string \<times> qval) list"

definition map_entry ::
  "fields \<Rightarrow> string \<Rightarrow> string \<Rightarrow> (bytes \<Rightarrow> exn + qval) \<Rightarrow> entry \<Rightarrow> exn + entry"
where
  "map_entry flds src dst fconv entry =
     (case map_of flds src of
        None \<Rightarrow> Inr entry
      | Some x \<Rightarrow> (case fconv x of
                    Inl ex \<Rightarrow> Inl ex
                  | Inr v \<Rightarrow> Inr (AList.update dst v entry)))"

definition conv_int :: "(bytes \<Rightarrow> exn + nat) \<Rightarrow> bytes \<Rightarrow> exn + qval" where
  "conv_int unpack x = (case unpack x of Inl ex \<Rightarrow> Inl ex | Inr n \<Rightarrow> Inr (VInt n))"

definition conv_price :: "(bytes \<Rightarrow> exn + nat) \<Rightarrow> real \<Rightarrow> bytes \<Rightarrow> exn + qval" where
  "conv_price unpack d x =
     (case unpack x of Inl ex \<Rightarrow> Inl ex | Inr n \<Rightarrow> Inr (VFloat (real n / d)))"

definition conv_side :: "bytes \<Rightarrow> exn + qval" where
  "conv_side x =
     Inr (case map_of [(Bytes [0x42], 0), (Bytes [0x53], 1)] (Bytes x) of
            None \<Rightarrow> VNone
          | Some v \<Rightarrow> VInt v)"

fun map_entries ::
  "fields \<Rightarrow> (string \<times> string \<times> (bytes \<Rightarrow> exn + qval)) list \<Rightarrow> entry \<Rightarrow> exn + entry"
where
  "map_entries flds [] entry = Inr entry"
| "map_entries flds ((src, dst, fconv) # rest) entry =
     (case map_entry flds src dst fconv entry of
        Inl ex \<Rightarrow> Inl ex
      | Inr entry' \<Rightarrow> map_entries flds rest entry')"

definition mc_get_ts :: "env \<Rightarrow> fields \<Rightarrow> mc_session \<Rightarrow> exn + datetime option" where
  "mc_get_ts e flds s =
     (case map_of flds ''pitch_time_offset'' of
        None \<Rightarrow> Inr (Some Now)
      | Some off \<Rightarrow>
          (case pitch_time s of
             None \<Rightarrow> Inl (AttributeError ''pitch_time'')
           | Some pt \<Rightarrow>
               (case unpack_I pt of
                  Inl ex \<Rightarrow> Inl ex
                | Inr base \<Rightarrow>
                    (case unpack_I off of
                       Inl ex \<Rightarrow> Inl ex
                     | Inr ms \<Rightarrow> date_format e (midnight s + real base + real ms / 1000)))))"

definition mc_map_quote :: "env \<Rightarrow> fields \<Rightarrow> mc_session \<Rightarrow> exn + quote" where
  "mc_map_quote e flds s =
     (case map_entries flds
             [(''pitch_shares_s'', ''size'', conv_int unpack_H),
              (''pitch_shares_l'', ''size'', conv_int unpack_I),
              (''pitch_shares_ll'', ''size'', conv_int unpack_Q),
              (''pitch_price_l'', ''price'', conv_price unpack_Q 10000),
              (''pitch_price_s'', ''price'', conv_price unpack_H 100),
              (''pitch_side'', ''side'', conv_side)] [] of
        Inl ex \<Rightarrow> Inl ex
      | Inr entry \<Rightarrow>
          (case contract s of
             None \<Rightarrow> Inl (AttributeError ''contract'')
           | Some c \<Rightarrow>
               (case flags s of
                  None \<Rightarrow> Inl (AttributeError ''flags'')
                | Some fl \<Rightarrow>
                    (case mc_get_ts e flds s of
                       Inl ex \<Rightarrow> Inl ex
                     | Inr ts \<Rightarrow>
                         Inr (c, ts, AList.update ''flags'' (VFlags (Some fl)) entry, [])))))"

subsection \<open>The decorator process_msg_header and the dispatch\<close>

definition mc_try :: "handler \<Rightarrow> env \<Rightarrow> bytes \<Rightarrow> mc_session \<Rightarrow> (exn \<times> mc_session) + mc_session" where
  "mc_try func e body s =
     (case func body (s\<lparr>flags := Some Flags_init\<rparr>) of
        Inl err \<Rightarrow> Inl err
      | Inr (flds, s1) \<Rightarrow>
          (case mc_map_quote e flds s1 of
             Inl ex \<Rightarrow> Inl (ex, s1)
           | Inr q \<Rightarrow>
               (let s2 = s1\<lparr>out := out s1 @ [WriteQuote q]\<rparr>
                in case write_quote e q of
                     Some ex \<Rightarrow> Inl (ex, s2)
                   | None \<Rightarrow> Inr (s2\<lparr>flags := None\<rparr>))))"

definition mc_process_msg_header ::
  "nat \<Rightarrow> string \<Rightarrow> handler \<Rightarrow> env \<Rightarrow> bytes \<Rightarrow> mc_session \<Rightarrow> bytes \<times> mc_session"
where
  "mc_process_msg_header msg_len name func e data s =
     (case mc_try func e (take msg_len data) s of
        Inr s' \<Rightarrow> (drop msg_len data, s')
      | Inl (ex, s') \<Rightarrow>
          (drop msg_len data,
           s'\<lparr>out := out s' @ [MsgError name (to_bstr (take msg_len data)) ex]\<rparr>))"

text \<open>\<open>if mtype in self.types: self.types[mtype](body)\<close>; the returned rest is dropped.\<close>

definition mc_dispatch :: "env \<Rightarrow> nat \<Rightarrow> bytes \<Rightarrow> mc_session \<Rightarrow> mc_session" where
  "mc_dispatch e mtype body s =
     (case map_of mc_types mtype of
        None \<Rightarrow> s
      | Some h \<Rightarrow> snd (mc_process_msg_header (entry_len h) (entry_name h) (entry_func h) e body s))"

subsection \<open>parse\<close>

definition parse_sequence_header :: "bytes \<Rightarrow> nat \<times> nat \<times> nat \<times> nat" where
  "parse_sequence_header data =
     (case unpack_HBBI data of Inr h \<Rightarrow> h | Inl ex \<Rightarrow> (0, 0, 0, 0))"

text \<open>
  The \<open>for\<close> loop over the messages of one block, started at \<open>offset\<close> with the number of
  iterations left. It returns the offset after the last iteration, or the exception of
  the unguarded \<open>unpack("BB", ...)\<close>.
\<close>

fun mc_messages ::
  "env \<Rightarrow> bytes \<Rightarrow> nat \<Rightarrow> nat \<Rightarrow> nat \<Rightarrow> mc_session \<Rightarrow> (exn \<times> mc_session) + (nat \<times> mc_session)"
where
  "mc_messages e data seq offset 0 s = Inr (offset, s)"
| "mc_messages e data seq offset (Suc k) s =
     (let s1 = s\<lparr>contract := Some seq\<rparr>
      in case unpack_BB (slice data offset (offset + 2)) of
           Inl ex \<Rightarrow> Inl (ex, s1)
         | Inr (mlen, mtype) \<Rightarrow>
             mc_messages e data seq (offset + mlen) k
               (mc_dispatch e mtype (slice data (offset + 2) (offset + mlen)) s1))"

definition do_close_quotes :: "env \<Rightarrow> mc_session \<Rightarrow> (exn \<times> mc_session) + mc_session" where
  "do_close_quotes e s =
     (let s' = s\<lparr>out := out s @ [CloseQuotes]\<rparr>
      in case close_quotes e of Some ex \<Rightarrow> Inl (ex, s') | None \<Rightarrow> Inr s')"

function mc_blocks :: "env \<Rightarrow> bytes \<Rightarrow> mc_session \<Rightarrow> (exn \<times> mc_session) + mc_session" where
  "mc_blocks e data s =
     (let h = parse_sequence_header (slice data 0 8);
          seq_len = fst h; msg_count = fst (snd h); seq = snd (snd (snd h))
      in if seq_len = 0 then Inr s
         else (case mc_messages e data seq 8 msg_count s of
                 Inl err \<Rightarrow> Inl err
               | Inr (offset, s1) \<Rightarrow>
                   (case do_close_quotes e s1 of
                      Inl err \<Rightarrow> Inl err
                    | Inr s2 \<Rightarrow> mc_blocks e (drop seq_len data) s2)))"
  by pat_completeness auto
termination
proof (relation "measure (\<lambda>(e, data, s). length data)")
  show "wf (measure (\<lambda>(e, data, s). length data))" by simp
next
  fix e :: env and data :: bytes and s :: mc_session
  fix h x xa xb xc x2 xd y x2a
  assume "h = parse_sequence_header (slice data 0 8)" "x = fst h" "x \<noteq> 0"
  then have "8 \<le> length data" "0 < x"
    by (auto simp: parse_sequence_header_def unpack_HBBI_def slice_def split: if_splits)
  then show "((e, drop x data, x2a), e, data, s) \<in> measure (\<lambda>(e, data, s). length data)"
    by simp
qed

text \<open>
  \<open>parse\<close> sets \<open>midnight\<close> to the time of the call, returns at once on an empty buffer,
  and otherwise runs the blocks. The attribute \<open>fields\<close> it resets is never read and is
  left out.
\<close>

definition mc_parse :: "env \<Rightarrow> bytes \<Rightarrow> mc_session \<Rightarrow> (exn \<times> mc_session) + mc_session" where
  "mc_parse e bytes_data s =
     (let s0 = s\<lparr>midnight := mktime_today e\<rparr>
      in if bytes_data = [] then Inr s0 else mc_blocks e bytes_data s0)"


section \<open>The direct parser (src/bats/parser.py)\<close>

text \<open>
  \<open>parse\<close> decodes the buffer as UTF-8 before anything else; the model starts from the
  decoded text, a \<open>string\<close> (characters below 256; for an ASCII buffer the text is the
  buffer). The class defines neither \<open>to_bstr\<close> nor the host's \<open>write_quote\<close> and
  \<open>close_quotes\<close>; \<open>to_bstr\<close> is the parser's own helper in the multicast class, and is
  absent here.
\<close>

datatype dval = DStr string | DInt nat | DNone | DTime "datetime option"

type_synonym dfields = "(string \<times> dval) list"

subsection \<open>int(str)\<close>

text \<open>
  \<open>int\<close> of a \<open>str\<close> skips, before and after the number, the characters tab, line feed,
  vertical tab, form feed, carriage return and space, and the spaces outside ASCII (below
  256: NEL 0x85 and the no-break space 0xA0). The separators 0x1C to 0x1F are not skipped:
  with one of them before or after the digits \<open>int\<close> raises ValueError.
\<close>

definition is_space :: "char \<Rightarrow> bool" where
  "is_space c =
     (of_char c \<in> {0x09, 0x0A, 0x0B, 0x0C, 0x0D, 0x20, 0x85, 0xA0 :: nat})"

definition is_digit :: "char \<Rightarrow> bool" where
  "is_digit c = (48 \<le> (of_char c :: nat) \<and> (of_char c :: nat) \<le> 57)"

definition digit_val :: "char \<Rightarrow> nat" where
  "digit_val c = of_char c - 48"

text \<open>Decimal digits, single underscores allowed between digits.\<close>

fun py_digits :: "string \<Rightarrow> nat \<Rightarrow> nat option" where
  "py_digits [] acc = None"
| "py_digits [c] acc = (if is_digit c then Some (10 * acc + digit_val c) else None)"
| "py_digits (c # d # ds) acc =
     (if is_digit c
      then (if d = CHR ''_'' then py_digits ds (10 * acc + digit_val c)
            else py_digits (d # ds) (10 * acc + digit_val c))
      else None)"

definition strip :: "string \<Rightarrow> string" where
  "strip s = rev (dropWhile is_space (rev (dropWhile is_space s)))"

definition py_int :: "string \<Rightarrow> exn + int" where
  "py_int s =
     (case strip s of
        [] \<Rightarrow> Inl ValueError
      | c # cs \<Rightarrow>
          if c = CHR ''-'' then (case py_digits cs 0 of None \<Rightarrow> Inl ValueError | Some n \<Rightarrow> Inr (- int n))
          else if c = CHR ''+'' then (case py_digits cs 0 of None \<Rightarrow> Inl ValueError | Some n \<Rightarrow> Inr (int n))
          else (case py_digits (c # cs) 0 of None \<Rightarrow> Inl ValueError | Some n \<Rightarrow> Inr (int n)))"

subsection \<open>Flag decoders\<close>

text \<open>
  The decorator \<open>flag\<close> applies \<open>chr\<close> to its argument, which needs an integer: a byte is
  converted, a one-character \<open>str\<close> raises TypeError, which the decorator prints and turns
  into the result \<open>None\<close>.
\<close>

datatype flag_arg = Byte byte | Char char

definition py_chr :: "flag_arg \<Rightarrow> exn + string" where
  "py_chr a = (case a of Byte b \<Rightarrow> Inr (chr b) | Char c \<Rightarrow> Inl TypeError)"

definition bats_flag ::
  "string \<Rightarrow> (string \<Rightarrow> nat option) \<Rightarrow> flag_arg \<Rightarrow> 'a session_scheme \<Rightarrow> nat option \<times> 'a session_scheme"
where
  "bats_flag name func a s =
     (case py_chr a of
        Inr key \<Rightarrow> (func key, s)
      | Inl ex \<Rightarrow> (None, s\<lparr>out := out s @ [FlagError name ex]\<rparr>))"

definition bats_market_mechanism_table :: "(string \<times> nat) list" where
  "bats_market_mechanism_table = [(''1'', 1), (''2'', 2), (''3'', 3), (''4'', 4)]"

definition bats_market_mechanism_func :: "string \<Rightarrow> nat option" where
  "bats_market_mechanism_func key = map_of bats_market_mechanism_table key"

definition bats_market_mechanism :: "flag_arg \<Rightarrow> 'a session_scheme \<Rightarrow> nat option \<times> 'a session_scheme" where
  "bats_market_mechanism = bats_flag ''market_mechanism'' bats_market_mechanism_func"

definition bats_trading_mode_table :: "(string \<times> nat) list" where
  "bats_trading_mode_table = [(''1'', 1), (''2'', 2), (''3'', 3), (''4'', 4), (''5'', 5), (''6'', 6), (''7'', 7), (''O'', 8), (''K'', 9), (''I'', 10), (''U'', 11)]"

definition bats_trading_mode_func :: "string \<Rightarrow> nat option" where
  "bats_trading_mode_func key = map_of bats_trading_mode_table key"

definition bats_trading_mode :: "flag_arg \<Rightarrow> 'a session_scheme \<Rightarrow> nat option \<times> 'a session_scheme" where
  "bats_trading_mode = bats_flag ''trading_mode'' bats_trading_mode_func"

definition bats_transaction_category_table :: "(string \<times> nat) list" where
  "bats_transaction_category_table = [(''P'', 1), (''D'', 2), (''T'', 3), (''G'', 4), (''F'', 5)]"

definition bats_transaction_category_func :: "string \<Rightarrow> nat option" where
  "bats_transaction_category_func key = map_of bats_transaction_category_table key"

definition bats_transaction_category :: "flag_arg \<Rightarrow> 'a session_scheme \<Rightarrow> nat option \<times> 'a session_scheme" where
  "bats_transaction_category = bats_flag ''transaction_category'' bats_transaction_category_func"

definition bats_negotiated_trade_table :: "(string \<times> nat) list" where
  "bats_negotiated_trade_table = [(''N'', 1)]"

definition bats_negotiated_trade_func :: "string \<Rightarrow> nat option" where
  "bats_negotiated_trade_func key = Some (dict_get bats_negotiated_trade_table key 2)"

definition bats_negotiated_trade :: "flag_arg \<Rightarrow> 'a session_scheme \<Rightarrow> nat option \<times> 'a session_scheme" where
  "bats_negotiated_trade = bats_flag ''negotiated_trade'' bats_negotiated_trade_func"

definition bats_crossing_trade_table :: "(string \<times> nat) list" where
  "bats_crossing_trade_table = [(''X'', 1)]"

definition bats_crossing_trade_func :: "string \<Rightarrow> nat option" where
  "bats_crossing_trade_func key = Some (dict_get bats_crossing_trade_table key 2)"

definition bats_crossing_trade :: "flag_arg \<Rightarrow> 'a session_scheme \<Rightarrow> nat option \<times> 'a session_scheme" where
  "bats_crossing_trade = bats_flag ''crossing_trade'' bats_crossing_trade_func"

definition bats_modification_indicator_table :: "(string \<times> nat) list" where
  "bats_modification_indicator_table = [(''A'', 1), (''C'', 2)]"

definition bats_modification_indicator_func :: "string \<Rightarrow> nat option" where
  "bats_modification_indicator_func key = Some (dict_get bats_modification_indicator_table key 3)"

definition bats_modification_indicator :: "flag_arg \<Rightarrow> 'a session_scheme \<Rightarrow> nat option \<times> 'a session_scheme" where
  "bats_modification_indicator = bats_flag ''modification_indicator'' bats_modification_indicator_func"

definition bats_benchmark_indicator_table :: "(string \<times> nat) list" where
  "bats_benchmark_indicator_table = [(''B'', 1)]"

definition bats_benchmark_indicator_func :: "string \<Rightarrow> nat option" where
  "bats_benchmark_indicator_func key = Some (dict_get bats_benchmark_indicator_table key 2)"

definition bats_benchmark_indicator :: "flag_arg \<Rightarrow> 'a session_scheme \<Rightarrow> nat option \<times> 'a session_scheme" where
  "bats_benchmark_indicator = bats_flag ''benchmark_indicator'' bats_benchmark_indicator_func"

definition bats_ex_cum_dividend_table :: "(string \<times> nat) list" where
  "bats_ex_cum_dividend_table = [(''E'', 1)]"

definition bats_ex_cum_dividend_func :: "string \<Rightarrow> nat option" where
  "bats_ex_cum_dividend_func key = Some (dict_get bats_ex_cum_dividend_table key 2)"

definition bats_ex_cum_dividend :: "flag_arg \<Rightarrow> 'a session_scheme \<Rightarrow> nat option \<times> 'a session_scheme" where
  "bats_ex_cum_dividend = bats_flag ''ex_cum_dividend'' bats_ex_cum_dividend_func"

definition bats_offbook_automated_indicator_table :: "(string \<times> nat) list" where
  "bats_offbook_automated_indicator_table = [(''Q'', 1), (''M'', 2)]"

definition bats_offbook_automated_indicator_func :: "string \<Rightarrow> nat option" where
  "bats_offbook_automated_indicator_func key = Some (dict_get bats_offbook_automated_indicator_table key 3)"

definition bats_offbook_automated_indicator :: "flag_arg \<Rightarrow> 'a session_scheme \<Rightarrow> nat option \<times> 'a session_scheme" where
  "bats_offbook_automated_indicator = bats_flag ''offbook_automated_indicator'' bats_offbook_automated_indicator_func"

definition bats_publication_indicator_table :: "(string \<times> nat) list" where
  "bats_publication_indicator_table = [(''1'', 1)]"

definition bats_publication_indicator_func :: "string \<Rightarrow> nat option" where
  "bats_publication_indicator_func key = Some (dict_get bats_publication_indicator_table key 2)"

definition bats_publication_indicator :: "flag_arg \<Rightarrow> 'a session_scheme \<Rightarrow> nat option \<times> 'a session_scheme" where
  "bats_publication_indicator = bats_flag ''publication_indicator'' bats_publication_indicator_func"

text \<open>The table written inside \<open>parse_trade_report_flags\<close>, looked up with \<open>data[0]\<close> itself.\<close>

definition bats_trade_timing_indicator_table :: "(string \<times> nat) list" where
  "bats_trade_timing_indicator_table = [(''1'', 1), (''2'', 2)]"

definition bats_trade_timing_indicator ::
  "flag_arg \<Rightarrow> 'a session_scheme \<Rightarrow> nat option \<times> 'a session_scheme"
where
  "bats_trade_timing_indicator a s =
     (case a of
        Char c \<Rightarrow> (Some (dict_get bats_trade_timing_indicator_table [c] 3), s)
      | Byte b \<Rightarrow> (Some 3, s))"

definition opt_val :: "nat option \<Rightarrow> dval" where
  "opt_val v = (case v of None \<Rightarrow> DNone | Some n \<Rightarrow> DInt n)"

text \<open>
  A dictionary display \<open>{key: self.f(data[i]), ...}\<close>: the items are evaluated in order,
  each index may raise IndexError.
\<close>

fun flag_items ::
  "(string \<times> (flag_arg \<Rightarrow> 'a session_scheme \<Rightarrow> nat option \<times> 'a session_scheme) \<times> nat) list \<Rightarrow>
   string \<Rightarrow> 'a session_scheme \<Rightarrow> (exn \<times> 'a session_scheme) + (dfields \<times> 'a session_scheme)"
where
  "flag_items [] data s = Inr ([], s)"
| "flag_items ((key, dec, i) # rest) data s =
     (case py_index data i of
        Inl ex \<Rightarrow> Inl (ex, s)
      | Inr ch \<Rightarrow>
          (case dec (Char ch) s of
             (v, s1) \<Rightarrow>
               (case flag_items rest data s1 of
                  Inl err \<Rightarrow> Inl err
                | Inr (items, s2) \<Rightarrow> Inr ((key, opt_val v) # items, s2))))"

definition bats_parse_order_execution_flag ::
  "string \<Rightarrow> 'a session_scheme \<Rightarrow> (exn \<times> 'a session_scheme) + (dfields \<times> 'a session_scheme)"
where
  "bats_parse_order_execution_flag =
     flag_items [(''market_mechanism'', bats_market_mechanism, 0),
                 (''trading_mode'', bats_trading_mode, 1),
                 (''excum_dividen'', bats_ex_cum_dividend, 2)]"

definition bats_parse_trade_flags ::
  "string \<Rightarrow> 'a session_scheme \<Rightarrow> (exn \<times> 'a session_scheme) + (dfields \<times> 'a session_scheme)"
where
  "bats_parse_trade_flags =
     flag_items [(''market_mechanism'', bats_market_mechanism, 0),
                 (''trading_mode'', bats_trading_mode, 1),
                 (''transaction_category'', bats_transaction_category, 2),
                 (''excum_dividen'', bats_ex_cum_dividend, 3)]"

definition bats_parse_trade_report_flags ::
  "string \<Rightarrow> 'a session_scheme \<Rightarrow> (exn \<times> 'a session_scheme) + (dfields \<times> 'a session_scheme)"
where
  "bats_parse_trade_report_flags =
     flag_items [(''trade_timing_indicator'', bats_trade_timing_indicator, 0),
                 (''market_mechanism'', bats_market_mechanism, 0),
                 (''trading_mode'', bats_trading_mode, 1),
                 (''transaction_category'', bats_transaction_category, 2),
                 (''negotiated_trade'', bats_negotiated_trade, 3),
                 (''crossing_trade'', bats_crossing_trade, 4),
                 (''modification_indicator'', bats_modification_indicator, 5),
                 (''benchmark_indicator'', bats_benchmark_indicator, 6),
                 (''excum_dividen'', bats_ex_cum_dividend, 7),
                 (''publication_indicator'', bats_publication_indicator, 8),
                 (''offbook_automated_indicator'', bats_offbook_automated_indicator, 9)]"

subsection \<open>Message handlers\<close>

definition bats_trading_status_table :: "(string \<times> nat) list" where
  "bats_trading_status_table =
     [(''T'', 1), (''R'', 2), (''C'', 3), (''S'', 4), (''N'', 5), (''V'', 6), (''O'', 7),
      (''E'', 8), (''H'', 9), (''M'', 10), (''P'', 11)]"

definition bats_statistic_type_table :: "(string \<times> nat) list" where
  "bats_statistic_type_table = [(''C'', 1), (''H'', 2), (''L'', 3), (''O'', 4), (''P'', 5)]"

definition bats_price_determination_table :: "(string \<times> nat) list" where
  "bats_price_determination_table = [(''0'', 1), (''1'', 2)]"

definition bats_auction_type_table :: "(string \<times> nat) list" where
  "bats_auction_type_table = [(''O'', 1), (''C'', 2), (''H'', 3), (''V'', 4)]"

type_synonym bats_handler =
  "env \<Rightarrow> string \<Rightarrow> session \<Rightarrow> (exn \<times> session) + (dfields \<times> session)"

definition str_fields :: "(string \<times> string) list \<Rightarrow> dfields" where
  "str_fields raw = map (\<lambda>kv. (fst kv, DStr (snd kv))) raw"

text \<open>\<open>fields.update(d)\<close>\<close>

definition dict_update :: "dfields \<Rightarrow> dfields \<Rightarrow> dfields" where
  "dict_update flds items = foldl (\<lambda>f kv. AList.update (fst kv) (snd kv) f) flds items"

text \<open>\<open>fields.update(self.parse...(fields['flags'])); del fields['flags']; return fields\<close>\<close>

definition with_parsed_flags ::
  "(string \<Rightarrow> session \<Rightarrow> (exn \<times> session) + (dfields \<times> session)) \<Rightarrow> (string \<times> string) list \<Rightarrow>
   dfields \<Rightarrow> session \<Rightarrow> (exn \<times> session) + (dfields \<times> session)"
where
  "with_parsed_flags p raw flds s =
     (case dict_item raw ''flags'' of
        Inl ex \<Rightarrow> Inl (ex, s)
      | Inr x \<Rightarrow>
          (case p x s of
             Inl err \<Rightarrow> Inl err
           | Inr (items, s1) \<Rightarrow> Inr (AList.delete ''flags'' (dict_update flds items), s1)))"

text \<open>\<open>fields[k] = {...}.get(fields[k])\<close>: the right-hand subscript raises KeyError first.\<close>

definition lookup_field ::
  "(string \<times> nat) list \<Rightarrow> string \<Rightarrow> (string \<times> string) list \<Rightarrow> dfields \<Rightarrow> exn + dfields"
where
  "lookup_field table k raw flds =
     (case dict_item raw k of
        Inl ex \<Rightarrow> Inl ex
      | Inr x \<Rightarrow> Inr (AList.update k (opt_val (map_of table x)) flds))"

definition bats_msg_clear_names :: "(string \<times> nat) list" where
  "bats_msg_clear_names =
     [(''pitch_symbol'', 8)]"

definition bats_msg_clear :: bats_handler where
  "bats_msg_clear e data s = Inr (str_fields (get_fields data bats_msg_clear_names), s)"

definition bats_msg_add_order_names :: "(string \<times> nat) list" where
  "bats_msg_add_order_names =
     [(''pitch_order'', 12), (''pitch_side'', 1), (''pitch_shares_s'', 6),
      (''pitch_symbol'', 6), (''pitch_price_s'', 10), (''pitch_display'', 1)]"

definition bats_msg_add_order :: bats_handler where
  "bats_msg_add_order e data s = Inr (str_fields (get_fields data bats_msg_add_order_names), s)"

definition bats_msg_add_order_long_names :: "(string \<times> nat) list" where
  "bats_msg_add_order_long_names =
     [(''pitch_order'', 12), (''pitch_side'', 1), (''pitch_shares_l'', 10),
      (''pitch_symbol'', 8), (''pitch_price_l'', 19), (''pitch_display'', 1)]"

definition bats_msg_add_order_long :: bats_handler where
  "bats_msg_add_order_long e data s = Inr (str_fields (get_fields data bats_msg_add_order_long_names), s)"

definition bats_msg_add_order_exp_names :: "(string \<times> nat) list" where
  "bats_msg_add_order_exp_names =
     [(''pitch_order'', 12), (''pitch_side'', 1), (''pitch_shares_l'', 10),
      (''pitch_symbol'', 8), (''pitch_price_l'', 19), (''pitch_type'', 1),
      (''pitch_participant'', 4)]"

definition bats_msg_add_order_exp :: bats_handler where
  "bats_msg_add_order_exp e data s = Inr (str_fields (get_fields data bats_msg_add_order_exp_names), s)"

definition bats_msg_order_executed_names :: "(string \<times> nat) list" where
  "bats_msg_order_executed_names =
     [(''pitch_order'', 12), (''pitch_shares_s'', 6), (''pitch_execution'', 12), (''flags'', 3)]"

definition bats_msg_order_executed :: bats_handler where
  "bats_msg_order_executed e data s =
     (let raw = get_fields data bats_msg_order_executed_names
      in with_parsed_flags bats_parse_order_execution_flag raw (str_fields raw) s)"

definition bats_msg_order_executed_long_names :: "(string \<times> nat) list" where
  "bats_msg_order_executed_long_names =
     [(''pitch_order'', 12), (''pitch_shares_l'', 10), (''pitch_execution'', 12),
      (''flags'', 3)]"

definition bats_msg_order_executed_long :: bats_handler where
  "bats_msg_order_executed_long e data s =
     (let raw = get_fields data bats_msg_order_executed_long_names
      in with_parsed_flags bats_parse_order_execution_flag raw (str_fields raw) s)"

definition bats_msg_order_cancel_names :: "(string \<times> nat) list" where
  "bats_msg_order_cancel_names =
     [(''pitch_order'', 12), (''pitch_shares_s'', 6)]"

definition bats_msg_order_cancel :: bats_handler where
  "bats_msg_order_cancel e data s = Inr (str_fields (get_fields data bats_msg_order_cancel_names), s)"

definition bats_msg_order_cancel_long_names :: "(string \<times> nat) list" where
  "bats_msg_order_cancel_long_names =
     [(''pitch_order'', 12), (''pitch_shares_l'', 10)]"

definition bats_msg_order_cancel_long :: bats_handler where
  "bats_msg_order_cancel_long e data s = Inr (str_fields (get_fields data bats_msg_order_cancel_long_names), s)"

definition bats_msg_trade_names :: "(string \<times> nat) list" where
  "bats_msg_trade_names =
     [(''pitch_order'', 12), (''pitch_side'', 1), (''pitch_shares_s'', 6),
      (''pitch_symbol'', 6), (''pitch_price_s'', 10), (''pitch_execution'', 12), (''flags'', 4)]"

definition bats_msg_trade :: bats_handler where
  "bats_msg_trade e data s =
     (let raw = get_fields data bats_msg_trade_names
      in with_parsed_flags bats_parse_trade_flags raw (str_fields raw) s)"

definition bats_msg_trade_long_names :: "(string \<times> nat) list" where
  "bats_msg_trade_long_names =
     [(''pitch_order'', 12), (''pitch_side'', 1), (''pitch_shares_s'', 10),
      (''pitch_symbol'', 8), (''pitch_price_l'', 19), (''pitch_execution'', 12), (''flags'', 4)]"

definition bats_msg_trade_long :: bats_handler where
  "bats_msg_trade_long e data s =
     (let raw = get_fields data bats_msg_trade_long_names
      in with_parsed_flags bats_parse_trade_flags raw (str_fields raw) s)"

definition bats_msg_trade_break_names :: "(string \<times> nat) list" where
  "bats_msg_trade_break_names =
     [(''pitch_execution'', 12)]"

definition bats_msg_trade_break :: bats_handler where
  "bats_msg_trade_break e data s = Inr (str_fields (get_fields data bats_msg_trade_break_names), s)"

definition bats_msg_trade_report_names :: "(string \<times> nat) list" where
  "bats_msg_trade_report_names =
     [(''pitch_shares_l'', 12), (''pitch_symbol'', 8), (''pitch_price_l'', 19),
      (''pitch_trade'', 12), (''date'', 8), (''time'', 8), (''pitch_exec_venue'', 4),
      (''pitch_currency'', 3), (''flags'', 11)]"

definition bats_msg_trade_report :: bats_handler where
  "bats_msg_trade_report e data s =
     (let raw = get_fields data bats_msg_trade_report_names
      in case dict_item raw ''date'' of
           Inl ex \<Rightarrow> Inl (ex, s)
         | Inr d \<Rightarrow>
             (case strptime_mktime e d of
                Inl ex \<Rightarrow> Inl (ex, s)
              | Inr day \<Rightarrow>
                  (case dict_item raw ''time'' of
                     Inl ex \<Rightarrow> Inl (ex, s)
                   | Inr t \<Rightarrow>
                       (case py_int t of
                          Inl ex \<Rightarrow> Inl (ex, s)
                        | Inr secs \<Rightarrow>
                            (case date_format e (day + real_of_int secs) of
                               Inl ex \<Rightarrow> Inl (ex, s)
                             | Inr tradetime \<Rightarrow>
                                 with_parsed_flags bats_parse_trade_report_flags raw
                                   (AList.delete ''time''
                                      (AList.delete ''date''
                                         (AList.update ''tradetime'' (DTime tradetime)
                                            (str_fields raw)))) s)))))"

definition bats_msg_trading_status_names :: "(string \<times> nat) list" where
  "bats_msg_trading_status_names =
     [(''pitch_symbol'', 8), (''pitch_status'', 1), (''pitch_reserved'', 3)]"

definition bats_msg_trading_status :: bats_handler where
  "bats_msg_trading_status e data s =
     (let raw = get_fields data bats_msg_trading_status_names
      in case lookup_field bats_trading_status_table ''pitch_trading_status'' raw (str_fields raw) of
           Inl ex \<Rightarrow> Inl (ex, s)
         | Inr flds \<Rightarrow> Inr (flds, s))"

definition bats_msg_statistics_names :: "(string \<times> nat) list" where
  "bats_msg_statistics_names =
     [(''pitch_symbol'', 8), (''pitch_price_l'', 19), (''pitch_statistic_type'', 1),
      (''pitch_price_determination'', 1)]"

definition bats_msg_statistics :: bats_handler where
  "bats_msg_statistics e data s =
     (let raw = get_fields data bats_msg_statistics_names
      in case lookup_field bats_statistic_type_table ''pitch_statistic_type'' raw (str_fields raw) of
           Inl ex \<Rightarrow> Inl (ex, s)
         | Inr f1 \<Rightarrow>
             (case lookup_field bats_price_determination_table ''pitch_price_determination'' raw f1 of
                Inl ex \<Rightarrow> Inl (ex, s)
              | Inr f2 \<Rightarrow> Inr (f2, s)))"

definition bats_msg_auction_update_names :: "(string \<times> nat) list" where
  "bats_msg_auction_update_names =
     [(''pitch_symbol'', 8), (''pitch_auction_type'', 1), (''pitch_reference_price_l'', 19),
      (''pitch_buy_shares_l'', 10), (''pitch_sell_shares_l'', 10),
      (''pitch_indicative_price_l'', 19)]"

definition bats_msg_auction_update :: bats_handler where
  "bats_msg_auction_update e data s =
     (let raw = get_fields data bats_msg_auction_update_names
      in case lookup_field bats_auction_type_table ''pitch_auction_type'' raw (str_fields raw) of
           Inl ex \<Rightarrow> Inl (ex, s)
         | Inr flds \<Rightarrow> Inr (flds, s))"

definition bats_msg_auction_summary_names :: "(string \<times> nat) list" where
  "bats_msg_auction_summary_names =
     [(''pitch_symbol'', 8), (''pitch_auction_type'', 1), (''pitch_price_l'', 19),
      (''pitch_share_l'', 10)]"

definition bats_msg_auction_summary :: bats_handler where
  "bats_msg_auction_summary e data s =
     (let raw = get_fields data bats_msg_auction_summary_names
      in case lookup_field bats_auction_type_table ''pitch_auction_type'' raw (str_fields raw) of
           Inl ex \<Rightarrow> Inl (ex, s)
         | Inr flds \<Rightarrow> Inr (flds, s))"

subsection \<open>The catalog \<open>self.types\<close>\<close>

datatype bats_entry =
  BEntry (bentry_len: nat) (bentry_name: string) (bentry_names: "(string \<times> nat) list")
         (bentry_func: bats_handler)

definition bats_types :: "(char \<times> bats_entry) list" where
  "bats_types =
     [(CHR ''s'', BEntry 8 ''msg_clear'' bats_msg_clear_names bats_msg_clear),
      (CHR ''A'', BEntry 45 ''msg_add_order'' bats_msg_add_order_names bats_msg_add_order),
      (CHR ''c'', BEntry 60 ''msg_add_order_long'' bats_msg_add_order_long_names bats_msg_add_order_long),
      (CHR ''t'', BEntry 64 ''msg_add_order_exp'' bats_msg_add_order_exp_names bats_msg_add_order_exp),
      (CHR ''E'', BEntry 42 ''msg_order_executed'' bats_msg_order_executed_names bats_msg_order_executed),
      (CHR ''e'', BEntry 46 ''msg_order_executed_long'' bats_msg_order_executed_long_names bats_msg_order_executed_long),
      (CHR ''X'', BEntry 27 ''msg_order_cancel'' bats_msg_order_cancel_names bats_msg_order_cancel),
      (CHR ''x'', BEntry 31 ''msg_order_cancel_long'' bats_msg_order_cancel_long_names bats_msg_order_cancel_long),
      (CHR ''P'', BEntry 60 ''msg_trade'' bats_msg_trade_names bats_msg_trade),
      (CHR ''q'', BEntry 75 ''msg_trade_long'' bats_msg_trade_long_names bats_msg_trade_long),
      (CHR ''B'', BEntry 21 ''msg_trade_break'' bats_msg_trade_break_names bats_msg_trade_break),
      (CHR ''O'', BEntry 94 ''msg_trade_report'' bats_msg_trade_report_names bats_msg_trade_report),
      (CHR ''H'', BEntry 21 ''msg_trading_status'' bats_msg_trading_status_names bats_msg_trading_status),
      (CHR ''Z'', BEntry 38 ''msg_statistics'' bats_msg_statistics_names bats_msg_statistics),
      (CHR ''k'', BEntry 76 ''msg_auction_update'' bats_msg_auction_update_names bats_msg_auction_update),
      (CHR ''j'', BEntry 47 ''msg_auction_summary'' bats_msg_auction_summary_names bats_msg_auction_summary)]"

subsection \<open>The decorator process_msg_header\<close>

text \<open>
  The \<open>try\<close> block: cut the body, run the handler, add \<open>receive_timestamp\<close>, call
  \<open>map_quote\<close> (which returns \<open>("", 0, "", "")\<close> whatever the fields are) and
  \<open>write_quote\<close>.
\<close>

definition bats_try ::
  "bats_handler \<Rightarrow> env \<Rightarrow> datetime option \<Rightarrow> string \<Rightarrow> session \<Rightarrow> (exn \<times> session) + session"
where
  "bats_try func e ts body s =
     (case func e body s of
        Inl err \<Rightarrow> Inl err
      | Inr (flds, s1) \<Rightarrow>
          (let flds' = AList.update ''receive_timestamp'' (DTime ts) flds;
               s2 = s1\<lparr>out := out s1 @ [WriteQuoteDirect]\<rparr>
           in case bats_write_quote e of
                Some ex \<Rightarrow> Inl (ex, s2)
              | None \<Rightarrow> Inr s2))"

text \<open>
  The \<open>except\<close> clause evaluates \<open>self.to_bstr(data[0:msg_len])\<close> for its \<open>print\<close>; the class
  has no attribute \<open>to_bstr\<close>, so AttributeError replaces the exception being handled
  and leaves the wrapper. Otherwise the wrapper returns \<open>data[msg_len:]\<close>.
\<close>

definition bats_process_msg_header ::
  "nat \<Rightarrow> string \<Rightarrow> bats_handler \<Rightarrow> env \<Rightarrow> datetime option \<Rightarrow> string \<Rightarrow> session \<Rightarrow>
   (exn \<times> session) + (string \<times> session)"
where
  "bats_process_msg_header msg_len name func e ts data s =
     (case bats_try func e ts (take msg_len data) s of
        Inr s' \<Rightarrow> Inr (drop msg_len data, s')
      | Inl (ex, s') \<Rightarrow> Inl (AttributeError ''to_bstr'', s'))"

subsection \<open>parse\<close>

fun split_on :: "char \<Rightarrow> string \<Rightarrow> string list" where
  "split_on sep [] = [[]]"
| "split_on sep (x # xs) =
     (if x = sep then [] # split_on sep xs
      else (case split_on sep xs of
              [] \<Rightarrow> [[x]]
            | l # ls \<Rightarrow> (x # l) # ls))"

text \<open>
  What the loop body reads from one non-empty line: the timestamp digits, the type code
  and the body.
\<close>

definition bats_frame :: "string \<Rightarrow> exn + (int \<times> char \<times> string)" where
  "bats_frame line =
     (let msg = drop 1 line
      in case py_int (slice msg 0 7) of
           Inl ex \<Rightarrow> Inl ex
         | Inr ts \<Rightarrow>
             (case py_index msg 8 of
                Inl ex \<Rightarrow> Inl ex
              | Inr m_type \<Rightarrow> Inr (ts, m_type, drop 9 msg)))"

definition bats_line :: "env \<Rightarrow> string \<Rightarrow> session \<Rightarrow> (exn \<times> session) + session" where
  "bats_line e line s =
     (if line = [] then Inr s
      else (case bats_frame line of
              Inl ex \<Rightarrow> Inl (ex, s)
            | Inr (ts, m_type, body) \<Rightarrow>
                (case map_of bats_types m_type of
                   None \<Rightarrow> Inr s
                 | Some h \<Rightarrow>
                     (case date_format e (midnight s + real_of_int ts) of
                        Inl ex \<Rightarrow> Inl (ex, s)
                      | Inr stamp \<Rightarrow>
                          (case bats_process_msg_header (bentry_len h) (bentry_name h)
                                  (bentry_func h) e stamp body s of
                             Inl err \<Rightarrow> Inl err
                           | Inr (rest, s') \<Rightarrow> Inr s')))))"

fun bats_lines :: "env \<Rightarrow> string list \<Rightarrow> session \<Rightarrow> (exn \<times> session) + session" where
  "bats_lines e [] s = Inr s"
| "bats_lines e (line # lines) s =
     (case bats_line e line s of
        Inl err \<Rightarrow> Inl err
      | Inr s' \<Rightarrow> bats_lines e lines s')"

definition bats_parse :: "env \<Rightarrow> string \<Rightarrow> session \<Rightarrow> (exn \<times> session) + session" where
  "bats_parse e data s =
     (case bats_lines e (split_on CHR 0x0A data) (s\<lparr>midnight := mktime_today e\<rparr>) of
        Inl err \<Rightarrow> Inl err
      | Inr s1 \<Rightarrow>
          (let s2 = s1\<lparr>out := out s1 @ [CloseQuotes]\<rparr>
           in case close_quotes e of Some ex \<Rightarrow> Inl (ex, s2) | None \<Rightarrow> Inr s2))"

section \<open>Auxiliary definitions for the statements\<close>

subsection \<open>Observations and concrete inputs used in the examples\<close>

text \<open>
  A freshly constructed \<open>Exchange\<close> has none of the attributes \<open>pitch_time\<close>, \<open>contract\<close>,
  \<open>flags\<close>; \<open>midnight\<close> is assigned by \<open>parse\<close> before it is read.
\<close>

definition mc_new :: mc_session where
  "mc_new = \<lparr> midnight = 0, out = [], pitch_time = None, contract = None, flags = None \<rparr>"

text \<open>
  A host whose collaborators return normally and whose clock reads 1700000000 (22:13:20 UTC)
  when \<open>parse\<close> is called.
\<close>

definition example_env :: env where
  "example_env =
     \<lparr> write_quote = (\<lambda>q. None), bats_write_quote = None, close_quotes = None,
       mktime_today = 1700000000,
       fromtimestamp_raises = (\<lambda>t. None),
       strptime_mktime = (\<lambda>d. if d = ''20231114'' then Inr 1699920000 else Inl ValueError) \<rparr>"

definition bats_new :: session where
  "bats_new = \<lparr> midnight = 0, out = [] \<rparr>"

definition bats_run :: "env \<Rightarrow> string \<Rightarrow> exn option \<times> event list" where
  "bats_run e data =
     (case bats_parse e data bats_new of
        Inl (ex, s) \<Rightarrow> (Some ex, out s)
      | Inr s \<Rightarrow> (None, out s))"

text \<open>
  The decoders of the multicast parser under the decorator \<open>flag\<close>, each with its table
  and the member of Flags it assigns.
\<close>

definition mc_flag_decoders ::
  "((pykey \<times> nat) list \<times> (byte \<Rightarrow> mc_session \<Rightarrow> mc_session) \<times> (Flags \<Rightarrow> nat)) list"
where
  "mc_flag_decoders =
     [(mc_market_mechanism_table, mc_market_mechanism, \<lambda>fl. unat (market_mechanism fl)),
      (mc_trading_mode_table, mc_trading_mode, \<lambda>fl. unat (trading_mode fl)),
      (mc_transaction_category_table, mc_transaction_category, \<lambda>fl. unat (transaction_category fl)),
      (mc_negotiated_trade_table, mc_negotiated_trade, \<lambda>fl. unat (negotiated_trade fl)),
      (mc_crossing_trade_table, mc_crossing_trade, \<lambda>fl. unat (crossing_trade fl)),
      (mc_modification_indicator_table, mc_modification_indicator, \<lambda>fl. unat (modification_indicator fl)),
      (mc_benchmark_indicator_table, mc_benchmark_indicator, \<lambda>fl. unat (benchmark_indicator fl)),
      (mc_ex_cum_dividend_table, mc_ex_cum_dividend, \<lambda>fl. unat (ex_cum_dividend fl)),
      (mc_offbook_automated_indicator_table, mc_offbook_automated_indicator, \<lambda>fl. unat (offbook_automated_indicator fl)),
      (mc_publication_indicator_table, mc_publication_indicator, \<lambda>fl. unat (publication_indicator fl)),
      (mc_trade_timing_indicator_table, mc_trade_timing_indicator, \<lambda>fl. unat (trade_timing_indicator fl))]"

text \<open>The Flags object a handler leaves behind when it returns normally.\<close>

definition mc_flags_after :: "handler \<Rightarrow> bytes \<Rightarrow> Flags option" where
  "mc_flags_after func body =
     (case func body (mc_new\<lparr>flags := Some Flags_init\<rparr>) of
        Inl err \<Rightarrow> None
      | Inr (flds, s) \<Rightarrow> flags s)"

text \<open>
  One \<open>parse\<close> call on a fresh object: the exception that leaves \<open>parse\<close>, if any, and
  what was printed and handed to the host, in order.
\<close>

definition mc_run :: "env \<Rightarrow> bytes \<Rightarrow> exn option \<times> event list" where
  "mc_run e data =
     (case mc_parse e data mc_new of
        Inl (ex, s) \<Rightarrow> (Some ex, out s)
      | Inr s \<Rightarrow> (None, out s))"

fun quote_stamps :: "event list \<Rightarrow> datetime option list" where
  "quote_stamps [] = []"
| "quote_stamps (WriteQuote (c, ts, entry, z) # evs) = ts # quote_stamps evs"
| "quote_stamps (ev # evs) = quote_stamps evs"

text \<open>The Flags object carried by each quote handed to the host, in order.\<close>

fun quote_flags :: "event list \<Rightarrow> Flags option list" where
  "quote_flags [] = []"
| "quote_flags (WriteQuote (c, ts, entry, z) # evs) =
     (case map_of entry ''flags'' of Some (VFlags fl) \<Rightarrow> fl | _ \<Rightarrow> None) # quote_flags evs"
| "quote_flags (ev # evs) = quote_flags evs"

subsection \<open>The traversal of a block in the words of the specification\<close>

text \<open>
  The messages of a block as the specification describes the walk: starting at \<open>offset\<close>,
  \<open>n\<close> times read a one-byte total length and a one-byte type code, take the next
  \<open>length - 2\<close> bytes as the body, and advance by the length. The result is \<open>None\<close> when
  one of the \<open>n\<close> two-byte message headers lies outside the buffer.
\<close>

fun spec_block_messages :: "bytes \<Rightarrow> nat \<Rightarrow> nat \<Rightarrow> (nat \<times> nat \<times> bytes) list option" where
  "spec_block_messages data offset 0 = Some []"
| "spec_block_messages data offset (Suc n) =
     (if offset + 2 \<le> length data
      then (let mlen = unat (data ! offset); mtype = unat (data ! (offset + 1))
            in map_option ((#) (mlen, mtype, take (mlen - 2) (drop (offset + 2) data)))
                 (spec_block_messages data (offset + mlen) n))
      else None)"

text \<open>Handing one message of the walk to the dispatcher, under the block's sequence.\<close>

definition hand_over :: "env \<Rightarrow> nat \<Rightarrow> mc_session \<Rightarrow> nat \<times> nat \<times> bytes \<Rightarrow> mc_session" where
  "hand_over e seq s m = mc_dispatch e (fst (snd m)) (snd (snd m)) (s\<lparr>contract := Some seq\<rparr>)"

text \<open>
  The blocks of a buffer as the specification describes the outer walk: read the 8-byte
  header (length, count, unit, sequence); stop when fewer than eight bytes are left or the
  length is zero; otherwise take the block's messages, starting at offset 8, and go on
  with the next header, the length after the start of this one. Each block is kept as its
  sequence and its messages. The result is \<open>None\<close> when a block does not hold the message
  headers it declares.
\<close>

function spec_blocks :: "bytes \<Rightarrow> (nat \<times> (nat \<times> nat \<times> bytes) list) list option" where
  "spec_blocks data =
     (if length data < 8 \<or> le_nat (take 2 data) = 0 then Some []
      else (case spec_block_messages data 8 (unat (data ! 2)) of
              None \<Rightarrow> None
            | Some msgs \<Rightarrow>
                map_option ((#) (le_nat (take 4 (drop 4 data)), msgs))
                  (spec_blocks (drop (le_nat (take 2 data)) data))))"
  by pat_completeness auto
termination
  by (relation "measure length") auto

declare spec_blocks.simps [simp del]

text \<open>
  Running a block: its messages are handed over in order, then \<open>close_quotes\<close> is called
  (on a host where it returns).
\<close>

definition run_block :: "env \<Rightarrow> mc_session \<Rightarrow> nat \<times> (nat \<times> nat \<times> bytes) list \<Rightarrow> mc_session" where
  "run_block e s b =
     (let s1 = foldl (hand_over e (fst b)) s (snd b) in s1\<lparr>out := out s1 @ [CloseQuotes]\<rparr>)"

text \<open>
  The base that a run of messages leaves behind: the first four body bytes of the last
  Time message (type 0x20) among them, or the base held before when there is none.
\<close>

definition last_time_base :: "bytes option \<Rightarrow> (nat \<times> nat \<times> bytes) list \<Rightarrow> bytes option" where
  "last_time_base pt msgs =
     foldl (\<lambda>b m. if fst (snd m) = 0x20 then Some (take 4 (snd (snd m))) else b) pt msgs"

subsection \<open>Predicates used in the proofs\<close>

text \<open>
  Two sessions hold the same Time-message base and the same reference time; a statement,
  or a handler, leaves both as it found them.
\<close>

definition same_base :: "mc_session \<Rightarrow> mc_session \<Rightarrow> bool" where
  "same_base s' s = (pitch_time s' = pitch_time s \<and> midnight s' = midnight s)"

definition keeps_base :: "(mc_session \<Rightarrow> (exn \<times> mc_session) + mc_session) \<Rightarrow> bool" where
  "keeps_base stmt = (\<forall>s. case stmt s of Inl (ex, s') \<Rightarrow> same_base s' s
                                   | Inr s' \<Rightarrow> same_base s' s)"

definition handler_keeps_base :: "handler \<Rightarrow> bool" where
  "handler_keeps_base func = (\<forall>data s. case func data s of Inl (ex, s') \<Rightarrow> same_base s' s
                                   | Inr (flds, s') \<Rightarrow> same_base s' s)"

declare mc_blocks.simps [simp del]

section \<open>Verified properties\<close>

subsection \<open>Lookups used by several results\<close>

lemma auction_update_raises:
  "mc_msg_auction_update data s = Inl (KeyError ''flags'', s)"
  by (simp add: mc_msg_auction_update_def mc_msg_auction_update_names_def get_fields_def
      store_field_def dict_item_def returning_def update_conv')

lemma auction_summary_raises:
  "mc_msg_auction_summary data s = Inl (KeyError ''flags'', s)"
  by (simp add: mc_msg_auction_summary_def mc_msg_auction_summary_names_def get_fields_def
      store_field_def dict_item_def returning_def update_conv')

lemma types_auction_update:
  "map_of mc_types 0x95 =
     Some (Entry 45 ''msg_auction_update'' mc_msg_auction_update_names mc_msg_auction_update)"
  by (simp add: mc_types_def)

lemma types_auction_summary:
  "map_of mc_types 0x96 =
     Some (Entry 47 ''msg_auction_summary'' mc_msg_auction_summary_names mc_msg_auction_summary)"
  by (simp add: mc_types_def)

subsection \<open>Auction messages of the multicast feed\<close>

text \<open>
  Claim C9. In the multicast variant the handlers of Auction Update (0x95) and Auction
  Summary (0x96) raise KeyError for the key \<open>flags\<close> on every body, because their layouts
  name that byte \<open>auction_type\<close>. The dispatcher therefore always takes its error path:
  it prints the handler name with the hex dump of the body and the KeyError, and no quote
  is written.
\<close>

theorem auction_handlers_always_fail:
  "mc_msg_auction_update data s0 = Inl (KeyError ''flags'', s0) \<and>
   mc_msg_auction_summary data s0 = Inl (KeyError ''flags'', s0) \<and>
   mc_dispatch e 0x95 body s =
     s\<lparr>flags := Some Flags_init,
       out := out s @ [MsgError ''msg_auction_update'' (to_bstr (take 45 body))
                        (KeyError ''flags'')]\<rparr> \<and>
   mc_dispatch e 0x96 body s =
     s\<lparr>flags := Some Flags_init,
       out := out s @ [MsgError ''msg_auction_summary'' (to_bstr (take 47 body))
                        (KeyError ''flags'')]\<rparr>"
  by (simp add: auction_update_raises auction_summary_raises mc_dispatch_def
      types_auction_update types_auction_summary mc_process_msg_header_def mc_try_def)

subsection \<open>The handlers keep the stored base and the reference time\<close>

lemma same_base_refl [simp]: "same_base s s"
  by (simp add: same_base_def)

lemma same_base_upd [simp]:
  "same_base (s'\<lparr>flags := x\<rparr>) s = same_base s' s"
  "same_base (s'\<lparr>out := y\<rparr>) s = same_base s' s"
  "same_base (s'\<lparr>contract := z\<rparr>) s = same_base s' s"
  "same_base s' (s\<lparr>flags := x\<rparr>) = same_base s' s"
  "same_base s' (s\<lparr>out := y\<rparr>) = same_base s' s"
  "same_base s' (s\<lparr>contract := z\<rparr>) = same_base s' s"
  by (simp_all add: same_base_def)

lemma same_base_trans: "same_base s2 s1 \<Longrightarrow> same_base s1 s \<Longrightarrow> same_base s2 s"
  by (simp add: same_base_def)

lemma with_flags_base: "with_flags upd s = Inr s' \<Longrightarrow> same_base s' s"
  by (auto simp: with_flags_def split: option.splits)

lemmas flag_defs = mc_market_mechanism_def mc_market_mechanism_func_def
  mc_trading_mode_def mc_trading_mode_func_def
  mc_transaction_category_def mc_transaction_category_func_def
  mc_negotiated_trade_def mc_negotiated_trade_func_def
  mc_crossing_trade_def mc_crossing_trade_func_def
  mc_modification_indicator_def mc_modification_indicator_func_def
  mc_benchmark_indicator_def mc_benchmark_indicator_func_def
  mc_ex_cum_dividend_def mc_ex_cum_dividend_func_def
  mc_offbook_automated_indicator_def mc_offbook_automated_indicator_func_def
  mc_publication_indicator_def mc_publication_indicator_func_def
  mc_trade_timing_indicator_def mc_trade_timing_indicator_func_def

lemma flags_base:
  "same_base (mc_market_mechanism b s) s"
  "same_base (mc_trading_mode b s) s"
  "same_base (mc_transaction_category b s) s"
  "same_base (mc_negotiated_trade b s) s"
  "same_base (mc_crossing_trade b s) s"
  "same_base (mc_modification_indicator b s) s"
  "same_base (mc_benchmark_indicator b s) s"
  "same_base (mc_ex_cum_dividend b s) s"
  "same_base (mc_offbook_automated_indicator b s) s"
  "same_base (mc_publication_indicator b s) s"
  "same_base (mc_trade_timing_indicator b s) s"
  by (simp_all add: flag_defs mc_flag_def with_flags_def split: option.splits)

lemma run_all_base: "list_all keeps_base stmts \<Longrightarrow> keeps_base (run_all stmts)"
proof (induction stmts)
  case Nil
  show ?case by (simp add: keeps_base_def)
next
  case (Cons a stmts)
  then have a: "keeps_base a" and r: "keeps_base (run_all stmts)" by simp_all
  show ?case unfolding keeps_base_def
  proof
    fix s
    show "case run_all (a # stmts) s of Inl (ex, s') \<Rightarrow> same_base s' s
          | Inr s' \<Rightarrow> same_base s' s"
    proof (cases "a s")
      case (Inl err)
      with a show ?thesis by (auto simp: keeps_base_def split: sum.splits prod.splits dest!: spec [of _ s])
    next
      case (Inr s1)
      with a have s1: "same_base s1 s" by (auto simp: keeps_base_def dest!: spec [of _ s])
      from r have "case run_all stmts s1 of Inl (ex, s') \<Rightarrow> same_base s' s1
          | Inr s' \<Rightarrow> same_base s' s1" by (simp add: keeps_base_def)
      then show ?thesis using Inr s1
        by (auto split: sum.splits prod.splits intro: same_base_trans)
    qed
  qed
qed

lemma store_field_base: "keeps_base (store_field st flds k)"
  by (auto simp: keeps_base_def store_field_def dict_item_def with_flags_def split: option.splits sum.splits)

lemma parse_field_base: "(\<And>x. keeps_base (p x)) \<Longrightarrow> keeps_base (parse_field p flds k)"
  by (auto simp: keeps_base_def parse_field_def dict_item_def split: option.splits sum.splits)

lemma oef_base: "keeps_base (mc_parse_order_execution_flag data)"
  unfolding mc_parse_order_execution_flag_def
  by (rule run_all_base) (simp add: keeps_base_def flag_at_def py_index_def flags_base)

lemma tf_base: "keeps_base (mc_parse_trade_flags data)"
  unfolding mc_parse_trade_flags_def
  by (rule run_all_base) (simp add: keeps_base_def flag_at_def py_index_def flags_base)

lemma trf_base: "keeps_base (mc_parse_trade_report_flags data)"
  unfolding mc_parse_trade_report_flags_def
  by (rule run_all_base) (simp add: keeps_base_def flag_at_def py_index_def flags_base)

lemma returning_base: "keeps_base stmt \<Longrightarrow>
   (case returning flds (stmt s) of Inl (ex, s') \<Rightarrow> same_base s' s
                                   | Inr (flds, s') \<Rightarrow> same_base s' s)"
  by (auto simp: keeps_base_def returning_def split: sum.splits dest!: spec [of _ s])

lemma plain_handlers_keep_base:
  "handler_keeps_base mc_msg_login"
  "handler_keeps_base mc_msg_gap_request"
  "handler_keeps_base mc_msg_clear"
  "handler_keeps_base mc_msg_add_order"
  "handler_keeps_base mc_msg_add_order_long"
  "handler_keeps_base mc_msg_add_order_exp"
  "handler_keeps_base mc_msg_reduce_size_short"
  "handler_keeps_base mc_msg_reduce_size_long"
  "handler_keeps_base mc_msg_modify_order_short"
  "handler_keeps_base mc_msg_modify_order_long"
  "handler_keeps_base mc_msg_delete_order"
  "handler_keeps_base mc_msg_trade_break"
  "handler_keeps_base mc_msg_end_session"
  by (simp_all add: handler_keeps_base_def mc_msg_login_def mc_msg_gap_request_def mc_msg_clear_def mc_msg_add_order_def mc_msg_add_order_long_def mc_msg_add_order_exp_def mc_msg_reduce_size_short_def mc_msg_reduce_size_long_def mc_msg_modify_order_short_def mc_msg_modify_order_long_def mc_msg_delete_order_def mc_msg_trade_break_def mc_msg_end_session_def)

lemma store_handlers_keep_base:
  "handler_keeps_base mc_msg_login_response"
  "handler_keeps_base mc_msg_gap_response"
  "handler_keeps_base mc_msg_trading_status"
  "handler_keeps_base mc_msg_auction_update"
  "handler_keeps_base mc_msg_auction_summary"
  by (simp_all add: handler_keeps_base_def Let_def returning_base [OF store_field_base] mc_msg_login_response_def mc_msg_gap_response_def mc_msg_trading_status_def mc_msg_auction_update_def mc_msg_auction_summary_def)

lemma parse_handlers_keep_base:
  "handler_keeps_base mc_msg_order_executed"
  "handler_keeps_base mc_msg_order_executed_price"
  "handler_keeps_base mc_msg_trade_short"
  "handler_keeps_base mc_msg_trade_long"
  "handler_keeps_base mc_msg_trade_report"
  by (simp_all add: handler_keeps_base_def Let_def returning_base [OF parse_field_base [OF oef_base]] returning_base [OF parse_field_base [OF tf_base]] returning_base [OF parse_field_base [OF trf_base]] mc_msg_order_executed_def mc_msg_order_executed_price_def mc_msg_trade_short_def mc_msg_trade_long_def mc_msg_trade_report_def)

lemma statistics_keeps_base: "handler_keeps_base mc_msg_statistics"
proof -
  have "keeps_base (run_all [store_field mc_statistic_type_store flds ''flags'',
                     store_field mc_price_determination_store flds ''price_determination''])" for flds
    by (rule run_all_base) (simp add: store_field_base)
  from returning_base [OF this] show ?thesis
    by (simp add: handler_keeps_base_def Let_def mc_msg_statistics_def del: run_all.simps)
qed

lemmas handlers_keep_base = plain_handlers_keep_base store_handlers_keep_base
  parse_handlers_keep_base statistics_keeps_base

lemma catalog_keeps_base:
  "map_of mc_types mtype = Some h \<Longrightarrow> mtype \<noteq> 0x20 \<Longrightarrow> handler_keeps_base (entry_func h)"
  by (auto simp: mc_types_def handlers_keep_base split: if_splits)

lemma mc_try_base:
  "handler_keeps_base func \<Longrightarrow>
     (case mc_try func e body s of Inl (ex, s') \<Rightarrow> same_base s' s
                                   | Inr s' \<Rightarrow> same_base s' s)"
proof -
  assume h: "handler_keeps_base func"
  let ?s0 = "s\<lparr>flags := Some Flags_init\<rparr>"
  from h have "case func body ?s0 of Inl (ex, s') \<Rightarrow> same_base s' ?s0
                                   | Inr (flds, s') \<Rightarrow> same_base s' ?s0"
    unfolding handler_keeps_base_def by blast
  then show ?thesis
    by (auto simp: mc_try_def Let_def split: sum.splits prod.splits option.splits)
qed

lemma dispatch_keeps_base:
  "mtype \<noteq> 0x20 \<Longrightarrow> same_base (mc_dispatch e mtype body s) s"
proof (cases "map_of mc_types mtype")
  case None
  then show ?thesis by (simp add: mc_dispatch_def)
next
  case (Some h)
  assume "mtype \<noteq> 0x20"
  with Some have "handler_keeps_base (entry_func h)" by (rule catalog_keeps_base)
  from mc_try_base [OF this, where e = e and body = "take (entry_len h) body" and s = s] show ?thesis
    using Some by (simp add: mc_dispatch_def mc_process_msg_header_def split: sum.splits prod.splits)
qed

lemma dispatch_keeps_pt:
  "mtype \<noteq> 0x20 \<Longrightarrow> pitch_time (mc_dispatch e mtype body s) = pitch_time s"
  using dispatch_keeps_base [of mtype e body s] by (simp add: same_base_def)

lemma types_time: "map_of mc_types 0x20 = Some (Entry 4 ''msg_time'' mc_msg_time_names mc_msg_time)"
  by (simp add: mc_types_def)

lemma msg_time_stores:
  "mc_msg_time data s = Inr ([(''pitch_time'', take 4 data)], s\<lparr>pitch_time := Some (take 4 data)\<rparr>)"
  by (simp add: mc_msg_time_def mc_msg_time_names_def get_fields_def dict_item_def slice_def)

lemma dispatch_time:
  "pitch_time (mc_dispatch e 0x20 body s) = Some (take 4 body)"
  by (simp add: mc_dispatch_def types_time mc_process_msg_header_def mc_try_def msg_time_stores
      Let_def split: sum.splits option.splits)

lemma get_ts_offset:
  "pitch_time s = Some pt \<Longrightarrow> unpack_I pt = Inr base \<Longrightarrow>
   map_of flds ''pitch_time_offset'' = Some off \<Longrightarrow> unpack_I off = Inr ms \<Longrightarrow>
   mc_get_ts e flds s = date_format e (midnight s + real base + real ms / 1000)"
  by (simp add: mc_get_ts_def)

lemma map_quote_ts:
  "mc_map_quote e flds s = Inr (c, ts, entry, z) \<Longrightarrow> mc_get_ts e flds s = Inr ts"
  by (simp add: mc_map_quote_def split: sum.splits option.splits)

subsection \<open>Evaluating a parse on a concrete buffer\<close>

lemma mc_messages_numeral:
  "mc_messages e data seq offset (numeral n) s =
     (let s1 = s\<lparr>contract := Some seq\<rparr>
      in case unpack_BB (slice data offset (offset + 2)) of
           Inl ex \<Rightarrow> Inl (ex, s1)
         | Inr (mlen, mtype) \<Rightarrow>
             mc_messages e data seq (offset + mlen) (pred_numeral n)
               (mc_dispatch e mtype (slice data (offset + 2) (offset + mlen)) s1))"
  by (simp only: numeral_eq_Suc mc_messages.simps)

lemmas mc_eval = mc_messages_numeral mc_run_def mc_parse_def mc_new_def example_env_def mc_blocks.simps
  parse_sequence_header_def unpack_HBBI_def unpack_BB_def unpack_uint_def le_nat_def slice_def
  mc_dispatch_def mc_types_def mc_process_msg_header_def mc_try_def Let_def
  mc_map_quote_def mc_get_ts_def map_entry_def conv_int_def conv_price_def conv_side_def
  date_format_def do_close_quotes_def get_fields_def dict_item_def update_conv' Flags_init_def
  returning_def

lemmas bats_eval = bats_run_def bats_parse_def bats_line_def bats_frame_def py_int_def
  strip_def is_space_def is_digit_def digit_val_def py_index_def slice_def bats_types_def
  bats_process_msg_header_def bats_try_def date_format_def example_env_def bats_new_def
  get_fields_def dict_item_def update_conv' Let_def str_fields_def lookup_field_def

subsection \<open>The walk over the messages and the blocks\<close>

lemma unpack_BB_in_range:
  "offset + 2 \<le> length data \<Longrightarrow>
     unpack_BB (slice data offset (offset + 2)) = Inr (unat (data ! offset), unat (data ! (offset + 1)))"
proof -
  assume a: "offset + 2 \<le> length data"
  then have "drop offset data = data ! offset # data ! (offset + 1) # drop (offset + 2) data"
    by (metis Cons_nth_drop_Suc Suc_eq_plus1 add_2_eq_Suc' less_add_same_cancel1 less_le_trans
        add_lessD1 lessI zero_less_numeral le_eq_less_or_eq Suc_le_eq)
  then show ?thesis by (simp add: unpack_BB_def slice_def)
qed

lemma unpack_BB_short:
  "\<not> offset + 2 \<le> length data \<Longrightarrow> unpack_BB (slice data offset (offset + 2)) = Inl StructError"
proof -
  assume "\<not> offset + 2 \<le> length data"
  then have "length (slice data offset (offset + 2)) < 2" by (simp add: slice_def)
  then show ?thesis
    by (cases "slice data offset (offset + 2)" rule: list.exhaust)
       (auto simp: unpack_BB_def split: list.splits)
qed

lemma mc_messages_step:
  assumes inb: "offset + 2 \<le> length data"
  shows "mc_messages e data seq offset (Suc k) s =
     mc_messages e data seq (offset + unat (data ! offset)) k
       (hand_over e seq s (unat (data ! offset), unat (data ! (offset + 1)),
           take (unat (data ! offset) - 2) (drop (offset + 2) data)))"
proof -
  have body: "slice data (offset + 2) (offset + m) = take (m - 2) (drop (offset + 2) data)" for m
    by (simp add: slice_def)
  show ?thesis
    by (simp only: mc_messages.simps Let_def unpack_BB_in_range [OF inb] sum.case prod.case
        body hand_over_def fst_conv snd_conv)
qed

lemma mc_messages_short:
  assumes "\<not> offset + 2 \<le> length data"
  shows "mc_messages e data seq offset (Suc k) s = Inl (StructError, s\<lparr>contract := Some seq\<rparr>)"
  by (simp only: mc_messages.simps Let_def unpack_BB_short [OF assms] sum.case)

lemma mc_messages_walk:
  "spec_block_messages data offset n = Some msgs \<Longrightarrow>
     length msgs = n \<and>
     mc_messages e data seq offset n s =
       Inr (offset + sum_list (map fst msgs), foldl (hand_over e seq) s msgs)"
proof (induction n arbitrary: offset s msgs)
  case 0
  then show ?case by simp
next
  case (Suc n)
  from Suc.prems have inb: "offset + 2 \<le> length data" by (simp split: if_splits)
  let ?mlen = "unat (data ! offset)" and ?mtype = "unat (data ! (offset + 1))"
  let ?body = "take (?mlen - 2) (drop (offset + 2) data)"
  from Suc.prems inb obtain rest where
    rest: "spec_block_messages data (offset + ?mlen) n = Some rest" and
    msgs: "msgs = (?mlen, ?mtype, ?body) # rest"
    by (auto simp: Let_def)
  from Suc.IH [OF rest] have
    "length rest = n" and
    "\<And>s. mc_messages e data seq (offset + ?mlen) n s =
       Inr (offset + ?mlen + sum_list (map fst rest), foldl (hand_over e seq) s rest)"
    by simp_all
  then show ?case
    by (simp add: msgs mc_messages_step [OF inb] add.assoc del: mc_messages.simps)
qed

lemma mc_messages_stops:
  "spec_block_messages data offset n = None \<Longrightarrow>
     \<exists>s'. mc_messages e data seq offset n s = Inl (StructError, s')"
proof (induction n arbitrary: offset s)
  case 0
  then show ?case by simp
next
  case (Suc n)
  show ?case
  proof (cases "offset + 2 \<le> length data")
    case True
    with Suc.prems have "spec_block_messages data (offset + unat (data ! offset)) n = None"
      by (simp add: Let_def)
    from Suc.IH [OF this] show ?thesis
      by (simp add: mc_messages_step [OF True] del: mc_messages.simps)
  next
    case False
    then show ?thesis by (simp add: mc_messages_short del: mc_messages.simps)
  qed
qed

lemma mc_blocks_next:
  assumes h: "parse_sequence_header (slice data 0 8) = (L, n, unit, seq)" and L: "L \<noteq> 0"
    and w: "spec_block_messages data 8 n = Some msgs" and cq: "close_quotes e = None"
  shows "mc_blocks e data s =
     mc_blocks e (drop L data) ((foldl (hand_over e seq) s msgs)\<lparr>out := out (foldl (hand_over e seq) s msgs) @ [CloseQuotes]\<rparr>)"
  using mc_messages_walk [OF w, of e seq s] h L cq
  by (subst mc_blocks.simps) (simp add: Let_def do_close_quotes_def del: mc_messages.simps)

lemma spec_block_messages_numeral:
  "spec_block_messages data offset (numeral k) =
     (if offset + 2 \<le> length data
      then (let mlen = unat (data ! offset); mtype = unat (data ! (offset + 1))
            in map_option ((#) (mlen, mtype, take (mlen - 2) (drop (offset + 2) data)))
                 (spec_block_messages data (offset + mlen) (pred_numeral k)))
      else None)"
  by (simp only: numeral_eq_Suc spec_block_messages.simps)

lemma header_short:
  "length data < 8 \<Longrightarrow> parse_sequence_header (slice data 0 8) = (0, 0, 0, 0)"
  by (simp add: parse_sequence_header_def unpack_HBBI_def slice_def)

lemma header_fields:
  "8 \<le> length data \<Longrightarrow>
     parse_sequence_header (slice data 0 8) =
       (le_nat (take 2 data), unat (data ! 2), unat (data ! 3), le_nat (take 4 (drop 4 data)))"
  by (simp add: parse_sequence_header_def unpack_HBBI_def slice_def drop_take)

lemma mc_blocks_walk:
  "spec_blocks data = Some blocks \<Longrightarrow> close_quotes e = None \<Longrightarrow>
     mc_blocks e data s = Inr (foldl (run_block e) s blocks)"
proof (induction data arbitrary: blocks s rule: spec_blocks.induct)
  case (1 data)
  show ?case
  proof (cases "length data < 8 \<or> le_nat (take 2 data) = 0")
    case True
    with "1.prems" have b: "blocks = []" by (subst (asm) spec_blocks.simps) simp
    from True have "fst (parse_sequence_header (slice data 0 8)) = 0"
      by (cases "length data < 8") (simp_all add: header_short header_fields)
    then show ?thesis by (subst mc_blocks.simps) (simp add: b Let_def)
  next
    case False
    then have len: "8 \<le> length data" and L: "le_nat (take 2 data) \<noteq> 0" by simp_all
    let ?L = "le_nat (take 2 data)" and ?n = "unat (data ! 2)"
    let ?seq = "le_nat (take 4 (drop 4 data))"
    from "1.prems"(1) False obtain msgs rest where
      w: "spec_block_messages data 8 ?n = Some msgs" and
      r: "spec_blocks (drop ?L data) = Some rest" and
      b: "blocks = (?seq, msgs) # rest"
      by (subst (asm) spec_blocks.simps) (auto split: option.splits)
    have h: "parse_sequence_header (slice data 0 8) = (?L, ?n, unat (data ! 3), ?seq)"
      by (rule header_fields [OF len])
    have next_block: "mc_blocks e data s = mc_blocks e (drop ?L data) (run_block e s (?seq, msgs))"
      using mc_blocks_next [OF h L w "1.prems"(2), of s] by (simp add: run_block_def Let_def)
    from "1.IH" [OF False w r "1.prems"(2)] show ?thesis
      by (simp add: next_block b)
  qed
qed

lemma mc_parse_walk:
  "spec_blocks data = Some blocks \<Longrightarrow> close_quotes e = None \<Longrightarrow>
     mc_parse e data s = Inr (foldl (run_block e) (s\<lparr>midnight := mktime_today e\<rparr>) blocks)"
proof (cases "data = []")
  case True
  assume "spec_blocks data = Some blocks"
  with True have "blocks = []" by (subst (asm) spec_blocks.simps) simp
  with True show ?thesis by (simp add: mc_parse_def)
next
  case False
  assume "spec_blocks data = Some blocks" "close_quotes e = None"
  from mc_blocks_walk [OF this] False show ?thesis by (simp add: mc_parse_def)
qed


lemma spec_blocks_eval:
  "spec_blocks (x # xs) =
     (let data = x # xs in
      if length data < 8 \<or> le_nat (take 2 data) = 0 then Some []
      else (case spec_block_messages data 8 (unat (data ! 2)) of
              None \<Rightarrow> None
            | Some msgs \<Rightarrow>
                map_option ((#) (le_nat (take 4 (drop 4 data)), msgs))
                  (spec_blocks (drop (le_nat (take 2 data)) data))))"
  "spec_blocks [] = Some []"
  by (subst spec_blocks.simps, simp add: Let_def)+

text \<open>
  Claim C5, evaluated. A first block declares the length 19 and three messages: a Time
  message, an Auction Update, whose handler raises, and a message of an unknown type; a
  second block follows, 19 bytes after the start of the first header. The three messages
  are walked, the failure of the second does not stop the walk, and the second block is
  read at byte 19: its Time message is written under its own sequence 2. When the buffer
  ends after the second message of the first block, whose header still declares three
  messages and the length 19, the third iteration's \<open>unpack("BB", ...)\<close> raises
  \<open>struct.error\<close> out of \<open>parse\<close>: two iterations are made instead of three,
  \<open>close_quotes\<close> is not called, and no further header is read. A block that declares
  one message and the length 10, of which only the length byte is present, raises in its
  first iteration.
\<close>

theorem declared_count_not_walked:
  "mc_run example_env
      [19, 0, 3, 1, 1, 0, 0, 0, 6, 0x20, 0x10, 0x0E, 0, 0, 3, 0x95, 0, 2, 0xFF,
       14, 0, 1, 1, 2, 0, 0, 0, 6, 0x20, 0x11, 0x0E, 0, 0]
     = (None,
        [WriteQuote (1, Some Now, [(''flags'', VFlags (Some Flags_init))], []),
         MsgError ''msg_auction_update'' ''00'' (KeyError ''flags''),
         CloseQuotes,
         WriteQuote (2, Some Now, [(''flags'', VFlags (Some Flags_init))], []),
         CloseQuotes]) \<and>
   parse_sequence_header (slice
      [19, 0, 3, 1, 1, 0, 0, 0, 6, 0x20, 0x10, 0x0E, 0, 0, 3, 0x95, 0] 0 8) = (19, 3, 1, 1) \<and>
   mc_run example_env
      [19, 0, 3, 1, 1, 0, 0, 0, 6, 0x20, 0x10, 0x0E, 0, 0, 3, 0x95, 0]
     = (Some StructError,
        [WriteQuote (1, Some Now, [(''flags'', VFlags (Some Flags_init))], []),
         MsgError ''msg_auction_update'' ''00'' (KeyError ''flags'')]) \<and>
   parse_sequence_header (slice [10, 0, 1, 1, 1, 0, 0, 0, 2] 0 8) = (10, 1, 1, 1) \<and>
   mc_run example_env [10, 0, 1, 1, 1, 0, 0, 0, 2] = (Some StructError, [])"
  by (simp add: mc_eval mc_msg_time_def mc_msg_time_names_def mc_msg_auction_update_def
      mc_msg_auction_update_names_def store_field_def to_bstr_def hex_digit_def)

subsection \<open>A message cut short\<close>

text \<open>
  Claim C8, evaluated. Two blocks with one Time message each parse without an exception;
  with the last byte of the first block's message removed, the second header is read one
  byte late, its count is taken from the unit byte, and the second iteration's
  \<open>unpack("BB", ...)\<close> raises \<open>struct.error\<close> out of \<open>parse\<close>. The same happens in a single
  block when a two-byte message loses its second byte.
\<close>

theorem truncated_message_escapes:
  "fst (mc_run example_env
          [14, 0, 1, 1, 1, 0, 0, 0, 6, 0x20, 0x10, 0x0E, 0, 0,
           14, 0, 1, 2, 2, 0, 0, 0, 6, 0x20, 0x11, 0x0E, 0, 0]) = None \<and>
   fst (mc_run example_env
          [14, 0, 1, 1, 1, 0, 0, 0, 6, 0x20, 0x10, 0x0E, 0,
           14, 0, 1, 2, 2, 0, 0, 0, 6, 0x20, 0x11, 0x0E, 0, 0]) = Some StructError \<and>
   fst (mc_run example_env [10, 0, 1, 1, 1, 0, 0, 0, 2, 0xFF]) = None \<and>
   fst (mc_run example_env [10, 0, 1, 1, 1, 0, 0, 0, 2]) = Some StructError"
  by (simp add: mc_eval mc_msg_time_def mc_msg_time_names_def)

subsection \<open>Timestamps of the multicast feed\<close>

lemma dispatch_midnight: "midnight (mc_dispatch e mtype body s) = midnight s"
proof (cases "mtype = 0x20")
  case True
  then show ?thesis
    by (simp add: mc_dispatch_def types_time mc_process_msg_header_def mc_try_def msg_time_stores
        Let_def split: sum.splits option.splits)
next
  case False
  from dispatch_keeps_base [OF this, of e body s] show ?thesis by (simp add: same_base_def)
qed

lemma hand_over_midnight: "midnight (hand_over e seq s m) = midnight s"
  by (simp add: hand_over_def dispatch_midnight)

lemma hand_over_time:
  "pitch_time (hand_over e seq s (mlen, 0x20, body)) = Some (take 4 body)"
  by (simp add: hand_over_def dispatch_time)

lemma hand_over_other:
  "mtype \<noteq> 0x20 \<Longrightarrow> pitch_time (hand_over e seq s (mlen, mtype, body)) = pitch_time s"
  by (simp add: hand_over_def dispatch_keeps_pt)

lemma hand_over_base:
  "pitch_time (hand_over e seq s m) = last_time_base (pitch_time s) [m]"
  by (cases m) (simp add: last_time_base_def hand_over_time hand_over_other)

lemma last_time_base_Cons:
  "last_time_base pt (m # msgs) = last_time_base (last_time_base pt [m]) msgs"
  by (simp add: last_time_base_def)

lemma last_time_base_append:
  "last_time_base pt (xs @ ys) = last_time_base (last_time_base pt xs) ys"
  by (simp add: last_time_base_def)

lemma messages_base:
  "pitch_time (foldl (hand_over e seq) s msgs) = last_time_base (pitch_time s) msgs \<and>
   midnight (foldl (hand_over e seq) s msgs) = midnight s"
proof (induction msgs arbitrary: s)
  case Nil
  show ?case by (simp add: last_time_base_def)
next
  case (Cons m msgs)
  from Cons [of "hand_over e seq s m"] show ?case
    by (simp add: hand_over_base hand_over_midnight last_time_base_Cons [of _ m msgs])
qed

lemma run_block_base:
  "pitch_time (run_block e s b) = last_time_base (pitch_time s) (snd b) \<and>
   midnight (run_block e s b) = midnight s"
  by (simp add: run_block_def Let_def messages_base)

lemma blocks_base:
  "pitch_time (foldl (run_block e) s blocks) = last_time_base (pitch_time s) (concat (map snd blocks)) \<and>
   midnight (foldl (run_block e) s blocks) = midnight s"
proof (induction blocks arbitrary: s)
  case Nil
  show ?case by (simp add: last_time_base_def)
next
  case (Cons b blocks)
  from Cons [of "run_block e s b"] show ?case
    by (simp add: run_block_base last_time_base_append)
qed

lemma offset_not_time:
  assumes h: "map_of mc_types mtype = Some h"
    and f: "entry_func h data s = Inr (flds, s1)"
    and o: "map_of flds ''pitch_time_offset'' = Some off"
  shows "mtype \<noteq> 0x20"
proof
  assume "mtype = 0x20"
  with h have "entry_func h = mc_msg_time" by (auto simp: types_time)
  with f have "flds = [(''pitch_time'', take 4 data)]" by (simp add: msg_time_stores)
  with o show False by simp
qed

lemma hand_over_stamp:
  assumes h: "map_of mc_types mtype = Some h"
    and f: "entry_func h (take (entry_len h) body)
              (s\<lparr>contract := Some seq, flags := Some Flags_init\<rparr>) = Inr (flds, s1)"
    and o: "map_of flds ''pitch_time_offset'' = Some off" and ms: "unpack_I off = Inr ms"
    and pt: "pitch_time s = Some pt" and base: "unpack_I pt = Inr base"
    and q: "mc_map_quote e flds s1 = Inr (c, ts, entry, z)"
  shows "date_format e (midnight s + real base + real ms / 1000) = Inr ts"
    and "WriteQuote (c, ts, entry, z) \<in> set (out (hand_over e seq s (mlen, mtype, body)))"
proof -
  from offset_not_time [OF h f o] have "handler_keeps_base (entry_func h)"
    by (rule catalog_keeps_base [OF h])
  then have "case entry_func h (take (entry_len h) body)
                    (s\<lparr>contract := Some seq, flags := Some Flags_init\<rparr>) of
               Inl (ex, s') \<Rightarrow> same_base s' (s\<lparr>contract := Some seq, flags := Some Flags_init\<rparr>)
             | Inr (flds, s') \<Rightarrow> same_base s' (s\<lparr>contract := Some seq, flags := Some Flags_init\<rparr>)"
    unfolding handler_keeps_base_def by blast
  with f have sb: "pitch_time s1 = pitch_time s" "midnight s1 = midnight s"
    by (simp_all add: same_base_def)
  from get_ts_offset [of s1 pt base flds off ms e] sb pt base o ms
  have "mc_get_ts e flds s1 = date_format e (midnight s + real base + real ms / 1000)" by simp
  with map_quote_ts [OF q]
  show "date_format e (midnight s + real base + real ms / 1000) = Inr ts" by simp
  from h f q show "WriteQuote (c, ts, entry, z) \<in> set (out (hand_over e seq s (mlen, mtype, body)))"
    by (simp add: hand_over_def mc_dispatch_def mc_process_msg_header_def mc_try_def Let_def
        split: option.splits)
qed

text \<open>
  Claim C3, as the code has it. On a buffer whose blocks hold the messages their headers
  declare, with a host whose \<open>close_quotes\<close> returns, \<open>parse\<close> ends in the session reached by
  handing the messages over one after the other, block by block, from the session in
  which \<open>midnight\<close> has been set to the reference time \<open>parse\<close> reads from the clock at its
  start. Handing messages over never changes \<open>midnight\<close>, and the base held after any run
  of messages or blocks is the first four body bytes of the last Time message among them,
  or the base held before when there is none: a Time message stores its base and every
  other message keeps it. A message whose handler returns fields with a
  \<open>pitch_time_offset\<close> is written, in the session it is handed over in, with the stamp
  \<open>midnight\<close> plus the stored base, taken as whole seconds, plus the offset divided by
  1000. With the base 3600 and the offset 500 the stamp is \<open>midnight\<close> + 3600.5 seconds.
\<close>

theorem time_base_tracking:
  "(spec_blocks data = Some blocks \<and> close_quotes e = None \<longrightarrow>
      mc_parse e data start = Inr (foldl (run_block e) (start\<lparr>midnight := mktime_today e\<rparr>) blocks)) \<and>
   midnight (foldl (run_block e) s blocks) = midnight s \<and>
   pitch_time (foldl (run_block e) s blocks) =
     last_time_base (pitch_time s) (concat (map snd blocks)) \<and>
   midnight (foldl (hand_over e seq) s msgs) = midnight s \<and>
   pitch_time (foldl (hand_over e seq) s msgs) = last_time_base (pitch_time s) msgs \<and>
   pitch_time (hand_over e seq s (mlen, 0x20, body)) = Some (take 4 body) \<and>
   (mtype \<noteq> 0x20 \<longrightarrow> pitch_time (hand_over e seq s (mlen, mtype, body)) = pitch_time s) \<and>
   (map_of mc_types mtype = Some h \<and>
    entry_func h (take (entry_len h) body)
      (s\<lparr>contract := Some seq, flags := Some Flags_init\<rparr>) = Inr (flds, s') \<and>
    map_of flds ''pitch_time_offset'' = Some off \<and> unpack_I off = Inr ms \<and>
    pitch_time s = Some pt \<and> unpack_I pt = Inr base \<and>
    mc_map_quote e flds s' = Inr (c, ts, entry, z) \<longrightarrow>
      WriteQuote (c, ts, entry, z) \<in> set (out (hand_over e seq s (mlen, mtype, body))) \<and>
      date_format e (midnight s + real base + real ms / 1000) = Inr ts \<and>
      (fromtimestamp_raises e (midnight s + real base + real ms / 1000) = None \<longrightarrow>
         ts = Some (At (midnight s + real base + real ms / 1000))))"
proof (intro conjI impI)
  assume "spec_blocks data = Some blocks \<and> close_quotes e = None"
  then show "mc_parse e data start = Inr (foldl (run_block e) (start\<lparr>midnight := mktime_today e\<rparr>) blocks)"
    by (simp add: mc_parse_walk)
next
  show "midnight (foldl (run_block e) s blocks) = midnight s"
    and "pitch_time (foldl (run_block e) s blocks) =
     last_time_base (pitch_time s) (concat (map snd blocks))"
    by (simp_all add: blocks_base)
  show "midnight (foldl (hand_over e seq) s msgs) = midnight s"
    and "pitch_time (foldl (hand_over e seq) s msgs) = last_time_base (pitch_time s) msgs"
    by (simp_all add: messages_base)
  show "pitch_time (hand_over e seq s (mlen, 0x20, body)) = Some (take 4 body)"
    by (rule hand_over_time)
next
  assume "mtype \<noteq> 0x20"
  then show "pitch_time (hand_over e seq s (mlen, mtype, body)) = pitch_time s"
    by (rule hand_over_other)
next
  assume a: "map_of mc_types mtype = Some h \<and>
    entry_func h (take (entry_len h) body)
      (s\<lparr>contract := Some seq, flags := Some Flags_init\<rparr>) = Inr (flds, s') \<and>
    map_of flds ''pitch_time_offset'' = Some off \<and> unpack_I off = Inr ms \<and>
    pitch_time s = Some pt \<and> unpack_I pt = Inr base \<and>
    mc_map_quote e flds s' = Inr (c, ts, entry, z)"
  then have h: "map_of mc_types mtype = Some h"
    and f: "entry_func h (take (entry_len h) body)
      (s\<lparr>contract := Some seq, flags := Some Flags_init\<rparr>) = Inr (flds, s')"
    and o: "map_of flds ''pitch_time_offset'' = Some off" and ms: "unpack_I off = Inr ms"
    and pt: "pitch_time s = Some pt" and base: "unpack_I pt = Inr base"
    and q: "mc_map_quote e flds s' = Inr (c, ts, entry, z)"
    by blast+
  show "WriteQuote (c, ts, entry, z) \<in> set (out (hand_over e seq s (mlen, mtype, body)))"
    by (rule hand_over_stamp(2) [OF h f o ms pt base q])
  show d: "date_format e (midnight s + real base + real ms / 1000) = Inr ts"
    by (rule hand_over_stamp(1) [OF h f o ms pt base q])
  assume "fromtimestamp_raises e (midnight s + real base + real ms / 1000) = None"
  with d show "ts = Some (At (midnight s + real base + real ms / 1000))"
    by (simp add: date_format_def)
qed


theorem time_base_tracking_witness:
  "spec_blocks
      [28, 0, 2, 1, 1, 0, 0, 0,
       6, 0x20, 0x10, 0x0E, 0, 0,
       14, 0x29, 0xF4, 0x01, 0, 0, 1, 2, 3, 4, 5, 6, 7, 8]
     = Some [(1, [(6, 0x20, [0x10, 0x0E, 0, 0]),
                  (14, 0x29, [0xF4, 0x01, 0, 0, 1, 2, 3, 4, 5, 6, 7, 8])])] \<and>
   close_quotes example_env = None \<and>
   mc_parse example_env
      [28, 0, 2, 1, 1, 0, 0, 0,
       6, 0x20, 0x10, 0x0E, 0, 0,
       14, 0x29, 0xF4, 0x01, 0, 0, 1, 2, 3, 4, 5, 6, 7, 8] mc_new
     = Inr (foldl (run_block example_env) (mc_new\<lparr>midnight := mktime_today example_env\<rparr>)
              [(1, [(6, 0x20, [0x10, 0x0E, 0, 0]),
                    (14, 0x29, [0xF4, 0x01, 0, 0, 1, 2, 3, 4, 5, 6, 7, 8])])]) \<and>
   mktime_today example_env = 1700000000 \<and>
   quote_stamps (snd (mc_run example_env
      [28, 0, 2, 1, 1, 0, 0, 0,
       6, 0x20, 0x10, 0x0E, 0, 0,
       14, 0x29, 0xF4, 0x01, 0, 0, 1, 2, 3, 4, 5, 6, 7, 8]))
     = [Some Now, Some (At (1700000000 + 3600.5))] \<and>
   pitch_time (hand_over example_env 1 (mc_new\<lparr>midnight := 1700000000\<rparr>) (6, 0x20, [0x10, 0x0E, 0, 0]))
     = Some [0x10, 0x0E, 0, 0] \<and>
   unpack_I [0x10, 0x0E, 0, 0] = Inr 3600 \<and> unpack_I [0xF4, 0x01, 0, 0] = Inr 500 \<and>
   map_of mc_types 0x29
     = Some (Entry 12 ''msg_delete_order'' mc_msg_delete_order_names mc_msg_delete_order) \<and>
   mc_msg_delete_order [0xF4, 0x01, 0, 0, 1, 2, 3, 4, 5, 6, 7, 8]
      (mc_new\<lparr>midnight := 1700000000, pitch_time := Some [0x10, 0x0E, 0, 0],
              contract := Some 1, flags := Some Flags_init\<rparr>)
     = Inr ([(''pitch_time_offset'', [0xF4, 0x01, 0, 0]), (''pitch_order'', [1, 2, 3, 4, 5, 6, 7, 8])],
            mc_new\<lparr>midnight := 1700000000, pitch_time := Some [0x10, 0x0E, 0, 0],
                    contract := Some 1, flags := Some Flags_init\<rparr>) \<and>
   mc_map_quote example_env
      [(''pitch_time_offset'', [0xF4, 0x01, 0, 0]), (''pitch_order'', [1, 2, 3, 4, 5, 6, 7, 8])]
      (mc_new\<lparr>midnight := 1700000000, pitch_time := Some [0x10, 0x0E, 0, 0],
              contract := Some 1, flags := Some Flags_init\<rparr>)
     = Inr (1, Some (At (1700000000 + 3600.5)), [(''flags'', VFlags (Some Flags_init))], []) \<and>
   WriteQuote (1, Some (At (1700000000 + 3600.5)), [(''flags'', VFlags (Some Flags_init))], [])
     \<in> set (out (hand_over example_env 1
                    (mc_new\<lparr>midnight := 1700000000, pitch_time := Some [0x10, 0x0E, 0, 0]\<rparr>)
                    (14, 0x29, [0xF4, 0x01, 0, 0, 1, 2, 3, 4, 5, 6, 7, 8])))"
proof -
  let ?data = "[28, 0, 2, 1, 1, 0, 0, 0,
       6, 0x20, 0x10, 0x0E, 0, 0,
       14, 0x29, 0xF4, 0x01, 0, 0, 1, 2, 3, 4, 5, 6, 7, 8] :: bytes"
  let ?blocks = "[(1, [(6, 0x20, [0x10, 0x0E, 0, 0]),
                  (14, 0x29, [0xF4, 0x01, 0, 0, 1, 2, 3, 4, 5, 6, 7, 8])])]
                 :: (nat \<times> (nat \<times> nat \<times> bytes) list) list"
  let ?s = "mc_new\<lparr>midnight := 1700000000, pitch_time := Some [0x10, 0x0E, 0, 0]\<rparr>"
  let ?flds = "[(''pitch_time_offset'', [0xF4, 0x01, 0, 0]),
                (''pitch_order'', [1, 2, 3, 4, 5, 6, 7, 8])] :: fields"
  have sb: "spec_blocks ?data = Some ?blocks"
    by (simp add: spec_blocks_eval spec_block_messages_numeral le_nat_def Let_def)
  have cq: "close_quotes example_env = None" by (simp add: example_env_def)
  note t1 = time_base_tracking [where data = ?data and blocks = ?blocks and e = example_env
      and start = mc_new and s = "mc_new\<lparr>midnight := 1700000000\<rparr>" and seq = 1 and mlen = 6
      and body = "[0x10, 0x0E, 0, 0]"]
  from t1 sb cq have p: "mc_parse example_env ?data mc_new
     = Inr (foldl (run_block example_env) (mc_new\<lparr>midnight := mktime_today example_env\<rparr>) ?blocks)"
    by blast
  from t1 have tm: "pitch_time (hand_over example_env 1 (mc_new\<lparr>midnight := 1700000000\<rparr>)
       (6, 0x20, [0x10, 0x0E, 0, 0])) = Some [0x10, 0x0E, 0, 0]"
    by simp
  have run: "quote_stamps (snd (mc_run example_env ?data))
     = [Some Now, Some (At (1700000000 + 3600.5))]"
    by (simp add: mc_eval mc_msg_time_def mc_msg_time_names_def mc_msg_delete_order_def
        mc_msg_delete_order_names_def)
  have ty: "map_of mc_types 0x29
     = Some (Entry 12 ''msg_delete_order'' mc_msg_delete_order_names mc_msg_delete_order)"
    by (simp add: mc_types_def)
  have f: "mc_msg_delete_order [0xF4, 0x01, 0, 0, 1, 2, 3, 4, 5, 6, 7, 8]
      (?s\<lparr>contract := Some 1, flags := Some Flags_init\<rparr>)
     = Inr (?flds, ?s\<lparr>contract := Some 1, flags := Some Flags_init\<rparr>)"
    by (simp add: mc_msg_delete_order_def mc_msg_delete_order_names_def get_fields_def slice_def)
  have q: "mc_map_quote example_env ?flds (?s\<lparr>contract := Some 1, flags := Some Flags_init\<rparr>)
     = Inr (1, Some (At (1700000000 + 3600.5)), [(''flags'', VFlags (Some Flags_init))], [])"
    by (simp add: mc_map_quote_def mc_get_ts_def map_entry_def unpack_uint_def le_nat_def
        date_format_def example_env_def mc_new_def)
  have u: "unpack_I [0x10, 0x0E, 0, 0] = Inr 3600" "unpack_I [0xF4, 0x01, 0, 0] = Inr 500"
    by (simp_all add: unpack_uint_def le_nat_def)
  note t2 = time_base_tracking [where e = example_env and s = ?s and seq = 1 and mlen = 14
      and mtype = "0x29" and body = "[0xF4, 0x01, 0, 0, 1, 2, 3, 4, 5, 6, 7, 8]"
      and h = "Entry 12 ''msg_delete_order'' mc_msg_delete_order_names mc_msg_delete_order"
      and flds = ?flds and s' = "?s\<lparr>contract := Some 1, flags := Some Flags_init\<rparr>"
      and off = "[0xF4, 0x01, 0, 0]" and ms = 500 and pt = "[0x10, 0x0E, 0, 0]" and base = 3600
      and c = 1 and ts = "Some (At (1700000000 + 3600.5))"
      and entry = "[(''flags'', VFlags (Some Flags_init))]" and z = "[]"]
  from t2 ty f q u have w: "WriteQuote (1, Some (At (1700000000 + 3600.5)),
        [(''flags'', VFlags (Some Flags_init))], [])
     \<in> set (out (hand_over example_env 1 ?s (14, 0x29, [0xF4, 0x01, 0, 0, 1, 2, 3, 4, 5, 6, 7, 8])))"
    by (simp add: mc_new_def)
  have mt: "mktime_today example_env = 1700000000" by (simp add: example_env_def)
  from sb cq p mt run tm u ty f q w show ?thesis by simp
qed


text \<open>
  The example of claim C3 as it is worded: a Time message whose base is 3600000,
  followed by a Delete Order message with the offset 500, is stamped
  \<open>midnight\<close> + 3600000.5, not \<open>midnight\<close> + 3600.5.
\<close>

theorem time_base_is_seconds_counterexample:
  "quote_stamps (snd (mc_run example_env
      [28, 0, 2, 1, 1, 0, 0, 0,
       6, 0x20, 0x80, 0xEE, 0x36, 0,
       14, 0x29, 0xF4, 0x01, 0, 0, 1, 2, 3, 4, 5, 6, 7, 8]))
     = [Some Now, Some (At (1700000000 + 3600000.5))]
   \<and> (1700000000 + 3600000.5 :: real) \<noteq> 1700000000 + 3600.5"
  by (simp add: mc_eval mc_msg_time_def mc_msg_time_names_def mc_msg_delete_order_def mc_msg_delete_order_names_def)

subsection \<open>Prices of the multicast feed\<close>

lemma le_nat_2: "length x = 2 \<Longrightarrow> le_nat x < 65536"
proof -
  assume "length x = 2"
  then obtain a b where x: "x = [a, b]"
    by (cases x; simp) (metis length_0_conv length_Suc_conv One_nat_def Suc_1 Suc_inject list.exhaust list.size(3,4) nat.distinct(1))
  have "unat a < 256" "unat b < 256"
    using unsigned_less [of a, where 'a = nat] unsigned_less [of b, where 'a = nat] by simp_all
  then show ?thesis by (simp add: x le_nat_def)
qed

lemma map_entries_step:
  "map_entries flds ((src, dst, f) # rest) en = Inr en' \<Longrightarrow>
     \<exists>e1. map_entry flds src dst f en = Inr e1 \<and> map_entries flds rest e1 = Inr en'"
  by (simp split: sum.splits)

lemma map_entry_other_key:
  "map_entry flds src dst f en = Inr en' \<Longrightarrow> dst \<noteq> k \<Longrightarrow> map_of en' k = map_of en k"
  by (auto simp: map_entry_def update_conv' split: option.splits sum.splits)

lemma map_entry_absent:
  "map_of flds src = None \<Longrightarrow> map_entry flds src dst f en = Inr en' \<Longrightarrow> en' = en"
  by (simp add: map_entry_def)

lemma map_entry_present:
  "map_of flds src = Some x \<Longrightarrow> map_entry flds src dst f en = Inr en' \<Longrightarrow>
     \<exists>v. f x = Inr v \<and> map_of en' dst = Some v"
  by (auto simp: map_entry_def update_conv' split: sum.splits)

lemma conv_price_Inr:
  "conv_price (unpack_uint n) d x = Inr v \<Longrightarrow> length x = n \<and> v = VFloat (real (le_nat x) / d)"
  by (auto simp: conv_price_def unpack_uint_def split: if_splits)

lemma map_quote_entry:
  "mc_map_quote e flds s = Inr (c, ts, entry, z) \<Longrightarrow>
     \<exists>en fl. map_entries flds
             [(''pitch_shares_s'', ''size'', conv_int unpack_H),
              (''pitch_shares_l'', ''size'', conv_int unpack_I),
              (''pitch_shares_ll'', ''size'', conv_int unpack_Q),
              (''pitch_price_l'', ''price'', conv_price unpack_Q 10000),
              (''pitch_price_s'', ''price'', conv_price unpack_H 100),
              (''pitch_side'', ''side'', conv_side)] [] = Inr en \<and>
        entry = AList.update ''flags'' (VFlags (Some fl)) en"
  by (auto simp: mc_map_quote_def simp del: map_entries.simps split: sum.splits option.splits)

lemma map_quote_prices:
  assumes q: "mc_map_quote e flds s = Inr (c, ts, entry, z)"
  shows "\<exists>e3 e4 e5.
    map_entry flds ''pitch_price_l'' ''price'' (conv_price unpack_Q 10000) e3 = Inr e4 \<and>
    map_entry flds ''pitch_price_s'' ''price'' (conv_price unpack_H 100) e4 = Inr e5 \<and>
    map_of entry ''price'' = map_of e5 ''price''"
proof -
  from map_quote_entry [OF q] obtain en fl where
    m: "map_entries flds
             [(''pitch_shares_s'', ''size'', conv_int unpack_H),
              (''pitch_shares_l'', ''size'', conv_int unpack_I),
              (''pitch_shares_ll'', ''size'', conv_int unpack_Q),
              (''pitch_price_l'', ''price'', conv_price unpack_Q 10000),
              (''pitch_price_s'', ''price'', conv_price unpack_H 100),
              (''pitch_side'', ''side'', conv_side)] [] = Inr en"
    and en: "entry = AList.update ''flags'' (VFlags (Some fl)) en" by blast
  from map_entries_step [OF m] obtain e1 where
    m1: "map_entries flds
             [(''pitch_shares_l'', ''size'', conv_int unpack_I),
              (''pitch_shares_ll'', ''size'', conv_int unpack_Q),
              (''pitch_price_l'', ''price'', conv_price unpack_Q 10000),
              (''pitch_price_s'', ''price'', conv_price unpack_H 100),
              (''pitch_side'', ''side'', conv_side)] e1 = Inr en" by blast
  from map_entries_step [OF m1] obtain e2 where
    m2: "map_entries flds
             [(''pitch_shares_ll'', ''size'', conv_int unpack_Q),
              (''pitch_price_l'', ''price'', conv_price unpack_Q 10000),
              (''pitch_price_s'', ''price'', conv_price unpack_H 100),
              (''pitch_side'', ''side'', conv_side)] e2 = Inr en" by blast
  from map_entries_step [OF m2] obtain e3 where
    m3: "map_entries flds
             [(''pitch_price_l'', ''price'', conv_price unpack_Q 10000),
              (''pitch_price_s'', ''price'', conv_price unpack_H 100),
              (''pitch_side'', ''side'', conv_side)] e3 = Inr en" by blast
  from map_entries_step [OF m3] obtain e4 where
    p4: "map_entry flds ''pitch_price_l'' ''price'' (conv_price unpack_Q 10000) e3 = Inr e4" and
    m4: "map_entries flds
             [(''pitch_price_s'', ''price'', conv_price unpack_H 100),
              (''pitch_side'', ''side'', conv_side)] e4 = Inr en" by blast
  from map_entries_step [OF m4] obtain e5 where
    p5: "map_entry flds ''pitch_price_s'' ''price'' (conv_price unpack_H 100) e4 = Inr e5" and
    m5: "map_entries flds [(''pitch_side'', ''side'', conv_side)] e5 = Inr en" by blast
  from map_entries_step [OF m5] obtain e6 where
    p6: "map_entry flds ''pitch_side'' ''side'' conv_side e5 = Inr e6" and
    m6: "map_entries flds [] e6 = Inr en" by blast
  from m6 have "e6 = en" by simp
  with map_entry_other_key [OF p6, of "''price''"]
  have "map_of en ''price'' = map_of e5 ''price''" by simp
  with en have "map_of entry ''price'' = map_of e5 ''price''" by (simp add: update_conv')
  with p4 p5 show ?thesis by blast
qed

text \<open>
  Claim C6, as the code has it. A short price is a field of exactly two bytes, read as an
  unsigned integer (so below 65536) and divided by 100; a long price is a field of exactly
  eight bytes, read as an unsigned integer and divided by 10000; any other width raises
  \<open>struct.error\<close>. The value is stored under \<open>price\<close> in the entry of the quote. A short
  raw value of 15000 gives 150.00 and a long raw value of 15000000 gives 1500.0000.
\<close>

theorem price_scaling:
  "conv_price unpack_H 100 x =
     (if length x = 2 then Inr (VFloat (real (le_nat x) / 100)) else Inl StructError) \<and>
   conv_price unpack_Q 10000 y =
     (if length y = 8 then Inr (VFloat (real (le_nat y) / 10000)) else Inl StructError) \<and>
   (mc_map_quote e flds s = Inr (c, ts, entry, z) \<and> map_of flds ''pitch_price_s'' = Some x \<longrightarrow>
      length x = 2 \<and> le_nat x < 65536 \<and>
      map_of entry ''price'' = Some (VFloat (real (le_nat x) / 100))) \<and>
   (mc_map_quote e flds s = Inr (c, ts, entry, z) \<and> map_of flds ''pitch_price_s'' = None \<and>
    map_of flds ''pitch_price_l'' = Some y \<longrightarrow>
      length y = 8 \<and> map_of entry ''price'' = Some (VFloat (real (le_nat y) / 10000)))"
proof (intro conjI impI)
  show "conv_price unpack_H 100 x =
     (if length x = 2 then Inr (VFloat (real (le_nat x) / 100)) else Inl StructError)"
    by (simp add: conv_price_def unpack_uint_def)
  show "conv_price unpack_Q 10000 y =
     (if length y = 8 then Inr (VFloat (real (le_nat y) / 10000)) else Inl StructError)"
    by (simp add: conv_price_def unpack_uint_def)
next
  assume a: "mc_map_quote e flds s = Inr (c, ts, entry, z) \<and> map_of flds ''pitch_price_s'' = Some x"
  then obtain e4 e5 where
    p5: "map_entry flds ''pitch_price_s'' ''price'' (conv_price unpack_H 100) e4 = Inr e5" and
    en: "map_of entry ''price'' = map_of e5 ''price''"
    using map_quote_prices by blast
  from a map_entry_present [OF _ p5] obtain v where
    "conv_price unpack_H 100 x = Inr v" "map_of e5 ''price'' = Some v" by blast
  with conv_price_Inr [of 2 100 x v] en
  show "length x = 2" and "map_of entry ''price'' = Some (VFloat (real (le_nat x) / 100))"
    by simp_all
  then show "le_nat x < 65536" by (simp add: le_nat_2)
next
  assume a: "mc_map_quote e flds s = Inr (c, ts, entry, z) \<and> map_of flds ''pitch_price_s'' = None \<and>
    map_of flds ''pitch_price_l'' = Some y"
  then obtain e3 e4 e5 where
    p4: "map_entry flds ''pitch_price_l'' ''price'' (conv_price unpack_Q 10000) e3 = Inr e4" and
    p5: "map_entry flds ''pitch_price_s'' ''price'' (conv_price unpack_H 100) e4 = Inr e5" and
    en: "map_of entry ''price'' = map_of e5 ''price''"
    using map_quote_prices by blast
  from a map_entry_absent [OF _ p5] have "e5 = e4" by simp
  moreover from a map_entry_present [OF _ p4] obtain v where
    "conv_price unpack_Q 10000 y = Inr v" "map_of e4 ''price'' = Some v" by blast
  ultimately show "length y = 8" and
    "map_of entry ''price'' = Some (VFloat (real (le_nat y) / 10000))"
    using conv_price_Inr [of 8 10000 y v] en by simp_all
qed

theorem price_scaling_witness:
  "mc_map_quote example_env
      (get_fields [0xF4, 0x01, 0, 0, 1, 2, 3, 4, 5, 6, 7, 8, 0x42, 100, 0,
                   0x56, 0x4F, 0x44, 0x6C, 0x20, 0x20, 0x98, 0x3A] mc_msg_add_order_names)
      (mc_new\<lparr>midnight := 1700000000, pitch_time := Some [0x10, 0x0E, 0, 0],
              contract := Some 7, flags := Some Flags_init\<rparr>)
     = Inr (7, Some (At (1700000000 + 3600.5)),
            [(''size'', VInt 100), (''price'', VFloat 150), (''side'', VInt 0),
             (''flags'', VFlags (Some Flags_init))], []) \<and>
   map_of (get_fields [0xF4, 0x01, 0, 0, 1, 2, 3, 4, 5, 6, 7, 8, 0x42, 100, 0,
                   0x56, 0x4F, 0x44, 0x6C, 0x20, 0x20, 0x98, 0x3A] mc_msg_add_order_names)
      ''pitch_price_s'' = Some [0x98, 0x3A] \<and>
   le_nat [0x98, 0x3A] = 15000 \<and>
   mc_map_quote example_env
      (get_fields [0xF4, 0x01, 0, 0, 1, 2, 3, 4, 5, 6, 7, 8, 0x53, 100, 0, 0, 0,
                   0x56, 0x4F, 0x44, 0x6C, 0x20, 0x20, 0x20, 0x20,
                   0xC0, 0xE1, 0xE4, 0, 0, 0, 0, 0] mc_msg_add_order_long_names)
      (mc_new\<lparr>midnight := 1700000000, pitch_time := Some [0x10, 0x0E, 0, 0],
              contract := Some 7, flags := Some Flags_init\<rparr>)
     = Inr (7, Some (At (1700000000 + 3600.5)),
            [(''size'', VInt 100), (''price'', VFloat 1500), (''side'', VInt 1),
             (''flags'', VFlags (Some Flags_init))], []) \<and>
   le_nat [0xC0, 0xE1, 0xE4, 0, 0, 0, 0, 0] = 15000000"
  using price_scaling [where x = "[0x98, 0x3A]" and e = example_env
      and flds = "get_fields [0xF4, 0x01, 0, 0, 1, 2, 3, 4, 5, 6, 7, 8, 0x42, 100, 0,
                   0x56, 0x4F, 0x44, 0x6C, 0x20, 0x20, 0x98, 0x3A] mc_msg_add_order_names"
      and s = "mc_new\<lparr>midnight := 1700000000, pitch_time := Some [0x10, 0x0E, 0, 0],
              contract := Some 7, flags := Some Flags_init\<rparr>"
      and c = 7 and ts = "Some (At (1700000000 + 3600.5))"
      and entry = "[(''size'', VInt 100), (''price'', VFloat 150), (''side'', VInt 0),
             (''flags'', VFlags (Some Flags_init))]" and z = "[]"]
    price_scaling [where y = "[0xC0, 0xE1, 0xE4, 0, 0, 0, 0, 0]" and e = example_env
      and flds = "get_fields [0xF4, 0x01, 0, 0, 1, 2, 3, 4, 5, 6, 7, 8, 0x53, 100, 0, 0, 0,
                   0x56, 0x4F, 0x44, 0x6C, 0x20, 0x20, 0x20, 0x20,
                   0xC0, 0xE1, 0xE4, 0, 0, 0, 0, 0] mc_msg_add_order_long_names"
      and s = "mc_new\<lparr>midnight := 1700000000, pitch_time := Some [0x10, 0x0E, 0, 0],
              contract := Some 7, flags := Some Flags_init\<rparr>"
      and c = 7 and ts = "Some (At (1700000000 + 3600.5))"
      and entry = "[(''size'', VInt 100), (''price'', VFloat 1500), (''side'', VInt 1),
             (''flags'', VFlags (Some Flags_init))]" and z = "[]"]
  by (simp add: mc_map_quote_def map_entry_def conv_price_def conv_int_def conv_side_def
      unpack_uint_def le_nat_def mc_get_ts_def mc_new_def get_fields_def slice_def
      mc_msg_add_order_names_def mc_msg_add_order_long_names_def date_format_def
      example_env_def update_conv')

text \<open>
  The short-price example of claim C6 as it is worded: 150000 needs three bytes, which
  \<open>unpack("H", ...)\<close> rejects, and its two low bytes decode to 189.28.
\<close>

theorem short_price_150000_counterexample:
  "le_nat [0xF0, 0x49, 0x02] = 150000 \<and>
   conv_price unpack_H 100 [0xF0, 0x49, 0x02] = Inl StructError \<and>
   conv_price unpack_H 100 [0xF0, 0x49] = Inr (VFloat 189.28)"
  by (simp add: le_nat_def conv_price_def unpack_uint_def)

subsection \<open>The trading status looked up by the handler\<close>

text \<open>
  Claim C10, evaluated. \<open>msg_trading_status\<close> looks its table up with \<open>fields['flags']\<close>, a
  slice of the \<open>bytes\<close> body, while the keys of the table are \<open>str\<close>: no key equals it, and
  the member \<open>trading_status\<close> receives the default 0 whatever the body is. The enumerant of
  H is 9, which the 3-bit member would hold as 1; but for a Trading Status message with
  the status byte H, sent after a Time message, the quote handed to the host carries the
  trading status 0.
\<close>

theorem trading_status_lookup_misses:
  "map_option trading_status (mc_flags_after mc_msg_trading_status body) = Some 0 \<and>
   dict_get mc_trading_status_table (Str ''H'') 0 = 9 \<and>
   (of_nat (dict_get mc_trading_status_table (Str ''H'') 0) :: 3 word) = 1 \<and>
   dict_get mc_trading_status_table (Bytes [0x48]) 0 = 0 \<and>
   map (map_option trading_status) (quote_flags (snd (mc_run example_env
      [32, 0, 2, 1, 1, 0, 0, 0,
       6, 0x20, 0x10, 0x0E, 0, 0,
       18, 0x31, 0xF4, 0x01, 0, 0, 0x56, 0x4F, 0x44, 0x6C, 0x20, 0x20, 0x20, 0x20,
       0x48, 0x20, 0x20, 0x20])))
     = [Some 0, Some 0] \<and>
   quote_stamps (snd (mc_run example_env
      [32, 0, 2, 1, 1, 0, 0, 0,
       6, 0x20, 0x10, 0x0E, 0, 0,
       18, 0x31, 0xF4, 0x01, 0, 0, 0x56, 0x4F, 0x44, 0x6C, 0x20, 0x20, 0x20, 0x20,
       0x48, 0x20, 0x20, 0x20]))
     = [Some Now, Some (At (1700000000 + 3600.5))]"
proof (intro conjI)
  show "map_option trading_status (mc_flags_after mc_msg_trading_status body) = Some 0"
    by (simp add: mc_flags_after_def mc_msg_trading_status_def mc_msg_trading_status_names_def
      get_fields_def store_field_def dict_item_def returning_def update_conv'
      with_flags_def mc_new_def mc_trading_status_store_def dict_get_def mc_trading_status_table_def)
qed (simp_all add: mc_eval mc_msg_time_def mc_msg_time_names_def mc_msg_trading_status_def
      mc_msg_trading_status_names_def store_field_def with_flags_def mc_trading_status_store_def
      dict_get_def mc_trading_status_table_def)


subsection \<open>Flag tables\<close>

lemma chr_eq: "chr b = [c] \<longleftrightarrow> b = of_char c"
proof -
  have ub: "unat b < 256" using unsigned_less [of b, where 'a = nat] by simp
  have uoc: "unat (of_char c :: 8 word) = of_char c"
  proof -
    have "unat (of_char c :: 8 word) = unat (of_nat (of_char c) :: 8 word)"
      by (simp only: of_nat_of_char)
    also have "\<dots> = of_char c mod 256" by (simp add: unat_of_nat)
    finally show ?thesis by simp
  qed
  show ?thesis
  proof
    assume "chr b = [c]"
    then have "of_char (char_of (unat b)) = (of_char c :: nat)" by (simp add: chr_def)
    then have "unat b = of_char c" using ub by simp
    then have "word_of_nat (unat b) = (word_of_nat (of_char c) :: 8 word)" by simp
    then show "b = of_char c" by (simp add: of_nat_of_char)
  next
    assume "b = of_char c"
    then show "chr b = [c]" by (simp add: uoc chr_def)
  qed
qed

lemma chr_eq': "[c] = chr b \<longleftrightarrow> b = of_char c"
  using chr_eq [of b c] by auto

lemmas mc_flag_defs = mc_market_mechanism_def mc_market_mechanism_func_def
  mc_trading_mode_def mc_trading_mode_func_def
  mc_transaction_category_def mc_transaction_category_func_def
  mc_negotiated_trade_def mc_negotiated_trade_func_def
  mc_crossing_trade_def mc_crossing_trade_func_def
  mc_modification_indicator_def mc_modification_indicator_func_def
  mc_benchmark_indicator_def mc_benchmark_indicator_func_def
  mc_ex_cum_dividend_def mc_ex_cum_dividend_func_def
  mc_offbook_automated_indicator_def mc_offbook_automated_indicator_func_def
  mc_publication_indicator_def mc_publication_indicator_func_def
  mc_trade_timing_indicator_def mc_trade_timing_indicator_func_def

lemmas mc_flag_tables = mc_market_mechanism_table_def mc_trading_mode_table_def
  mc_transaction_category_table_def mc_negotiated_trade_table_def mc_crossing_trade_table_def
  mc_modification_indicator_table_def mc_benchmark_indicator_table_def
  mc_ex_cum_dividend_table_def mc_offbook_automated_indicator_table_def
  mc_publication_indicator_table_def mc_trade_timing_indicator_table_def

lemma mc_decoders_store:
  "(tbl, dec, stored) \<in> set mc_flag_decoders \<Longrightarrow>
     dec b (s\<lparr>flags := Some fl\<rparr>) = s\<lparr>flags := flags (dec b (s\<lparr>flags := Some fl\<rparr>))\<rparr> \<and>
     map_option stored (flags (dec b (s\<lparr>flags := Some fl\<rparr>))) = Some (dict_get tbl (Str (chr b)) 0)"
  by (simp add: mc_flag_decoders_def, elim disjE;
      simp add: mc_flag_defs mc_flag_def with_flags_def mc_flag_tables dict_get_def chr_eq')

lemmas bats_flag_defs = bats_market_mechanism_def bats_market_mechanism_func_def
  bats_trading_mode_def bats_trading_mode_func_def
  bats_transaction_category_def bats_transaction_category_func_def
  bats_negotiated_trade_def bats_negotiated_trade_func_def
  bats_crossing_trade_def bats_crossing_trade_func_def
  bats_modification_indicator_def bats_modification_indicator_func_def
  bats_benchmark_indicator_def bats_benchmark_indicator_func_def
  bats_ex_cum_dividend_def bats_ex_cum_dividend_func_def
  bats_offbook_automated_indicator_def bats_offbook_automated_indicator_func_def
  bats_publication_indicator_def bats_publication_indicator_func_def

lemma chr_A: "chr 0x41 = ''A''" and chr_Z: "chr 0x5A = ''Z''" and chr_K: "chr 0x4B = ''K''"
  by (simp_all add: chr_def char_of_def bit_Suc_0_iff)

text \<open>
  Claim C4, evaluated. In the direct parser the flag codes are characters of a \<open>str\<close>; the
  decorator \<open>flag\<close> applies \<open>chr\<close> to the character, which raises TypeError, prints it and
  returns \<open>None\<close>: each of the ten decorated decoders returns \<open>None\<close> for every code,
  documented or not (the table of modification_indicator has 1 for A and the default 3
  for Z). An Order Executed line with the flags \<open>12E\<close> prints three such errors. In the
  multicast parser the tables inside \<open>msg_login_response\<close> and \<open>msg_gap_response\<close> have
  \<open>str\<close> keys and are looked up with a slice of the \<open>bytes\<close> body: the member receives 0
  for every body, also for the documented login status A, whose enumerant is 1. The
  decorated decoders of the multicast parser receive a byte, an integer, and find their
  keys: modification_indicator of the byte 0x41 stores 1.
\<close>

theorem flag_codes_miss_their_tables:
  "bats_market_mechanism (Char c) t
     = (None, t\<lparr>out := out t @ [FlagError ''market_mechanism'' TypeError]\<rparr>) \<and>
   bats_trading_mode (Char c) t
     = (None, t\<lparr>out := out t @ [FlagError ''trading_mode'' TypeError]\<rparr>) \<and>
   bats_transaction_category (Char c) t
     = (None, t\<lparr>out := out t @ [FlagError ''transaction_category'' TypeError]\<rparr>) \<and>
   bats_negotiated_trade (Char c) t
     = (None, t\<lparr>out := out t @ [FlagError ''negotiated_trade'' TypeError]\<rparr>) \<and>
   bats_crossing_trade (Char c) t
     = (None, t\<lparr>out := out t @ [FlagError ''crossing_trade'' TypeError]\<rparr>) \<and>
   bats_modification_indicator (Char c) t
     = (None, t\<lparr>out := out t @ [FlagError ''modification_indicator'' TypeError]\<rparr>) \<and>
   bats_benchmark_indicator (Char c) t
     = (None, t\<lparr>out := out t @ [FlagError ''benchmark_indicator'' TypeError]\<rparr>) \<and>
   bats_ex_cum_dividend (Char c) t
     = (None, t\<lparr>out := out t @ [FlagError ''ex_cum_dividend'' TypeError]\<rparr>) \<and>
   bats_offbook_automated_indicator (Char c) t
     = (None, t\<lparr>out := out t @ [FlagError ''offbook_automated_indicator'' TypeError]\<rparr>) \<and>
   bats_publication_indicator (Char c) t
     = (None, t\<lparr>out := out t @ [FlagError ''publication_indicator'' TypeError]\<rparr>) \<and>
   dict_get bats_modification_indicator_table ''A'' 3 = 1 \<and>
   dict_get bats_modification_indicator_table ''Z'' 3 = 3 \<and>
   bats_run example_env ''S00000010EORDER0000001000100EXEC0000000112E''
     = (None,
        [FlagError ''market_mechanism'' TypeError, FlagError ''trading_mode'' TypeError,
         FlagError ''ex_cum_dividend'' TypeError, WriteQuoteDirect, CloseQuotes]) \<and>
   map_option login_status (mc_flags_after mc_msg_login_response body) = Some 0 \<and>
   map_option gap_status (mc_flags_after mc_msg_gap_response body) = Some 0 \<and>
   dict_get mc_login_status_table (Str ''A'') 0 = 1 \<and>
   dict_get mc_login_status_table (Bytes [0x41]) 0 = 0 \<and>
   map_option modification_indicator
     (flags (mc_modification_indicator 0x41 (mc_new\<lparr>flags := Some Flags_init\<rparr>))) = Some 1 \<and>
   map (map_option login_status)
     (quote_flags (snd (mc_run example_env [11, 0, 1, 1, 1, 0, 0, 0, 3, 0x02, 0x41])))
     = [Some 0]"
proof (intro conjI)
  show "bats_run example_env ''S00000010EORDER0000001000100EXEC0000000112E''
     = (None,
        [FlagError ''market_mechanism'' TypeError, FlagError ''trading_mode'' TypeError,
         FlagError ''ex_cum_dividend'' TypeError, WriteQuoteDirect, CloseQuotes])"
    by (simp add: bats_eval bats_msg_order_executed_def bats_msg_order_executed_names_def
        with_parsed_flags_def bats_parse_order_execution_flag_def bats_flag_defs bats_flag_def
        py_chr_def)
  show "map (map_option login_status)
     (quote_flags (snd (mc_run example_env [11, 0, 1, 1, 1, 0, 0, 0, 3, 0x02, 0x41])))
     = [Some 0]"
    by (simp add: mc_eval mc_msg_login_response_def mc_msg_login_response_names_def
        store_field_def with_flags_def mc_login_status_store_def dict_get_def
        mc_login_status_table_def)
  show "map_option login_status (mc_flags_after mc_msg_login_response body) = Some 0"
    by (simp add: mc_flags_after_def mc_msg_login_response_def mc_msg_login_response_names_def
        get_fields_def store_field_def dict_item_def returning_def update_conv'
        with_flags_def mc_new_def mc_login_status_store_def dict_get_def mc_login_status_table_def)
  show "map_option gap_status (mc_flags_after mc_msg_gap_response body) = Some 0"
    by (simp add: mc_flags_after_def mc_msg_gap_response_def mc_msg_gap_response_names_def
        get_fields_def store_field_def dict_item_def returning_def update_conv'
        with_flags_def mc_new_def mc_gap_status_store_def dict_get_def mc_gap_status_table_def)
  show "map_option modification_indicator
     (flags (mc_modification_indicator 0x41 (mc_new\<lparr>flags := Some Flags_init\<rparr>))) = Some 1"
    by (simp add: mc_modification_indicator_def mc_modification_indicator_func_def mc_flag_def
        chr_A with_flags_def mc_new_def dict_get_def mc_modification_indicator_table_def)
qed (simp_all add: bats_flag_defs bats_flag_def py_chr_def dict_get_def
       bats_modification_indicator_table_def mc_login_status_table_def)

subsection \<open>Declared lengths and field layouts\<close>

lemmas mc_names_defs =
  mc_msg_login_names_def mc_msg_login_response_names_def mc_msg_gap_request_names_def
  mc_msg_gap_response_names_def mc_msg_time_names_def mc_msg_clear_names_def
  mc_msg_add_order_names_def mc_msg_add_order_long_names_def mc_msg_add_order_exp_names_def
  mc_msg_order_executed_names_def mc_msg_order_executed_price_names_def
  mc_msg_reduce_size_short_names_def mc_msg_reduce_size_long_names_def
  mc_msg_modify_order_short_names_def mc_msg_modify_order_long_names_def
  mc_msg_delete_order_names_def mc_msg_trade_short_names_def mc_msg_trade_long_names_def
  mc_msg_trade_break_names_def mc_msg_trade_report_names_def mc_msg_end_session_names_def
  mc_msg_trading_status_names_def mc_msg_statistics_names_def mc_msg_auction_update_names_def
  mc_msg_auction_summary_names_def

lemmas bats_names_defs =
  bats_msg_clear_names_def bats_msg_add_order_names_def bats_msg_add_order_long_names_def
  bats_msg_add_order_exp_names_def bats_msg_order_executed_names_def
  bats_msg_order_executed_long_names_def bats_msg_order_cancel_names_def
  bats_msg_order_cancel_long_names_def bats_msg_trade_names_def bats_msg_trade_long_names_def
  bats_msg_trade_break_names_def bats_msg_trade_report_names_def
  bats_msg_trading_status_names_def bats_msg_statistics_names_def
  bats_msg_auction_update_names_def bats_msg_auction_summary_names_def

text \<open>
  Claim C2, as the code has it. In the multicast catalog the field widths of every entry
  other than Trading Status (0x31) and Auction Summary (0x96) add up to the length given
  to \<open>process_msg_header\<close>. In the direct catalog the length given to
  \<open>process_msg_header\<close> is, for every entry other than the clear message \<open>s\<close>, the sum of
  the field widths plus 9.
\<close>

theorem catalog_widths:
  "(\<forall>(code, h) \<in> set mc_types.
      code \<noteq> 0x31 \<and> code \<noteq> 0x96 \<longrightarrow> sum_list (map snd (entry_names h)) = entry_len h) \<and>
   (\<forall>(c, h) \<in> set bats_types.
      c \<noteq> CHR ''s'' \<longrightarrow> sum_list (map snd (bentry_names h)) + 9 = bentry_len h)"
proof
  show "\<forall>(code, h) \<in> set mc_types.
      code \<noteq> 0x31 \<and> code \<noteq> 0x96 \<longrightarrow> sum_list (map snd (entry_names h)) = entry_len h"
    by (simp add: mc_types_def mc_names_defs)
  show "\<forall>(c, h) \<in> set bats_types.
      c \<noteq> CHR ''s'' \<longrightarrow> sum_list (map snd (bentry_names h)) + 9 = bentry_len h"
    by (simp add: bats_types_def bats_names_defs)
qed

theorem catalog_widths_witness:
  "(0x41, Entry 45 ''msg_trade_long'' mc_msg_trade_long_names mc_msg_trade_long) \<in> set mc_types \<and>
   sum_list (map snd mc_msg_trade_long_names) = 45 \<and>
   (CHR ''A'', BEntry 45 ''msg_add_order'' bats_msg_add_order_names bats_msg_add_order)
      \<in> set bats_types \<and>
   sum_list (map snd bats_msg_add_order_names) + 9 = 45"
proof -
  have m: "(0x41, Entry 45 ''msg_trade_long'' mc_msg_trade_long_names mc_msg_trade_long)
             \<in> set mc_types"
    by (simp add: mc_types_def)
  have d: "(CHR ''A'', BEntry 45 ''msg_add_order'' bats_msg_add_order_names bats_msg_add_order)
             \<in> set bats_types"
    by (simp add: bats_types_def)
  from bspec [OF conjunct1 [OF catalog_widths] m]
  have a: "sum_list (map snd mc_msg_trade_long_names) = 45" by simp
  from bspec [OF conjunct2 [OF catalog_widths] d]
  have b: "sum_list (map snd bats_msg_add_order_names) + 9 = 45" by simp
  from m d a b show ?thesis by simp
qed

text \<open>
  The two examples of claim C2 as it is worded: the layout of the direct add-order entry
  (declared 45) adds up to 36, and the layout of the multicast auction-summary entry
  (declared 47) adds up to 25.
\<close>

theorem catalog_widths_counterexample:
  "map_option bentry_len (map_of bats_types CHR ''A'') = Some 45 \<and>
   map_option bentry_names (map_of bats_types CHR ''A'') = Some bats_msg_add_order_names \<and>
   sum_list (map snd bats_msg_add_order_names) = 36 \<and>
   map_option entry_len (map_of mc_types 0x96) = Some 47 \<and>
   map_option entry_names (map_of mc_types 0x96) = Some mc_msg_auction_summary_names \<and>
   sum_list (map snd mc_msg_auction_summary_names) = 25"
  by (simp add: bats_types_def mc_types_def bats_msg_add_order_names_def
      mc_msg_auction_summary_names_def)

subsection \<open>Lines of the direct feed\<close>




lemma py_int_examples:
  "py_int ''0000012'' = Inr 12 \<and> py_int '' +12  '' = Inr 12 \<and> py_int ''-1_2'' = Inr (- 12) \<and>
   py_int (CHR 0x85 # ''12'' @ [CHR 0xA0]) = Inr 12 \<and>
   py_int (CHR 0x1C # ''000012'') = Inl ValueError \<and>
   py_int (''12'' @ [CHR 0x1F]) = Inl ValueError \<and>
   py_int ''1__2'' = Inl ValueError \<and> py_int ''12_'' = Inl ValueError \<and>
   py_int ''+ 12'' = Inl ValueError \<and> py_int [] = Inl ValueError"
  by (simp add: py_int_def strip_def is_space_def is_digit_def digit_val_def)






subsection \<open>Exceptions inside a handler\<close>

lemma mc_wrapper_advances:
  "fst (mc_process_msg_header msg_len name func e data s) = drop msg_len data"
  by (simp add: mc_process_msg_header_def split: sum.splits prod.splits)

lemma mc_wrapper_logs:
  "mc_try func e (take msg_len data) s = Inl (ex, s') \<Longrightarrow>
     mc_process_msg_header msg_len name func e data s =
       (drop msg_len data,
        s'\<lparr>out := out s' @ [MsgError name (to_bstr (take msg_len data)) ex]\<rparr>)"
  by (simp add: mc_process_msg_header_def)

text \<open>
  Claim C1, evaluated. The multicast wrapper returns \<open>data[msg_len:]\<close> whatever happens
  inside it. In the direct parser a clear message is written and the parse ends normally;
  a trading-status message makes its handler raise KeyError, the \<open>except\<close> clause then
  fails on \<open>self.to_bstr\<close>, and AttributeError leaves \<open>parse\<close>: the clear message on the
  next line is never decoded and \<open>close_quotes\<close> is not called.
\<close>

theorem direct_handler_error_escapes:
  "fst (mc_process_msg_header msg_len name func e data s) = drop msg_len data \<and>
   bats_run example_env ''S00000010sVODl    '' = (None, [WriteQuoteDirect, CloseQuotes]) \<and>
   bats_msg_trading_status example_env ''VODl    T   '' bats_new
     = Inl (KeyError ''pitch_trading_status'', bats_new) \<and>
   bats_run example_env (''S00000010HVODl    T   '' @ [CHR 0x0A] @ ''S00000020sVODl    '')
     = (Some (AttributeError ''to_bstr''), [])"
  by (simp add: mc_wrapper_advances bats_eval bats_msg_clear_def bats_msg_clear_names_def
      bats_msg_trading_status_def bats_msg_trading_status_names_def)

end
